theory Spec2Isabelle
  imports
    Complex_Main
    "HOL-Library.Word"
    "HOL-Library.AList"
    "HOL-Library.Char_ord"
    "HOL-Library.List_Lexorder"
begin

section \<open>Strings, as src/app.js uses them\<close>

text \<open>
  JavaScript strings are modelled as \<^typ>\<open>string\<close>, restricted to ASCII: the white space
  that \<^verbatim>\<open>trim\<close> removes is TAB, LF, VT, FF, CR and SPACE, and the case mappings act on
  the 26 letters only.  An argument that the source coerces with
  \<^verbatim>\<open>String(x || "")\<close> is a \<^typ>\<open>string\<close>, the empty string standing for every falsy
  value; only the webhook arguments, which arrive as parsed JSON, are modelled as JSON
  values (see \<open>jsval\<close> below).
\<close>

definition is_space :: "char \<Rightarrow> bool" where
  "is_space c \<longleftrightarrow> c \<in> set [CHR 0x09, CHR 0x0A, CHR 0x0B, CHR 0x0C, CHR 0x0D, CHR '' '']"

definition trim :: "string \<Rightarrow> string" where
  "trim s = rev (dropWhile is_space (rev (dropWhile is_space s)))"

definition upper_chars :: string where
  "upper_chars = ''ABCDEFGHIJKLMNOPQRSTUVWXYZ''"

definition lower_chars :: string where
  "lower_chars = ''abcdefghijklmnopqrstuvwxyz''"

definition digit_chars :: string where
  "digit_chars = ''0123456789''"

definition lower_char :: "char \<Rightarrow> char" where
  "lower_char c = (case map_of (zip upper_chars lower_chars) c of Some d \<Rightarrow> d | None \<Rightarrow> c)"

definition upper_char :: "char \<Rightarrow> char" where
  "upper_char c = (case map_of (zip lower_chars upper_chars) c of Some d \<Rightarrow> d | None \<Rightarrow> c)"

definition toLowerCase :: "string \<Rightarrow> string" where
  "toLowerCase s = map lower_char s"

definition toUpperCase :: "string \<Rightarrow> string" where
  "toUpperCase s = map upper_char s"

text \<open>\<^verbatim>\<open>s.replace(/\.$/, "")\<close>: one trailing dot is removed.\<close>

definition strip_trailing_dot :: "string \<Rightarrow> string" where
  "strip_trailing_dot s = (if s \<noteq> [] \<and> last s = CHR ''.'' then butlast s else s)"

definition startsWith :: "string \<Rightarrow> string \<Rightarrow> bool" where
  "startsWith s p \<longleftrightarrow> take (length p) s = p"

definition endsWith :: "string \<Rightarrow> string \<Rightarrow> bool" where
  "endsWith s p \<longleftrightarrow> length p \<le> length s \<and> drop (length s - length p) s = p"

text \<open>\<^verbatim>\<open>s.replace(/^https?:\/\//, "")\<close>.\<close>

definition strip_scheme :: "string \<Rightarrow> string" where
  "strip_scheme s =
     (if startsWith s ''http://'' then drop 7 s
      else if startsWith s ''https://'' then drop 8 s
      else s)"

text \<open>\<^verbatim>\<open>s.split(sep)[0]\<close> for a one-character separator.\<close>

definition split_first :: "char \<Rightarrow> string \<Rightarrow> string" where
  "split_first sep s = takeWhile (\<lambda>c. c \<noteq> sep) s"

definition normalizeHost :: "string \<Rightarrow> string" where
  "normalizeHost host =
     (if host = [] then [] else strip_trailing_dot (toLowerCase (trim host)))"

definition normalizeDomain :: "string \<Rightarrow> string" where
  "normalizeDomain domain =
     (let d = toLowerCase (trim domain);
          d = strip_scheme d;
          d = split_first CHR ''/'' d;
          d = split_first CHR '':'' d
      in strip_trailing_dot d)"

definition isValidDomainLike :: "string \<Rightarrow> bool" where
  "isValidDomainLike v0 =
     (let v = normalizeDomain v0 in
      if v = [] then False
      else if CHR '' '' \<in> set v then False
      else if CHR ''.'' \<notin> set v then False
      else if length v < 4 then False
      else True)"

text \<open>\<^verbatim>\<open>/^[a-z0-9-]+$/.test(s)\<close>.\<close>

definition slug_ok :: "string \<Rightarrow> bool" where
  "slug_ok s \<longleftrightarrow> s \<noteq> [] \<and> (\<forall>c \<in> set s. c \<in> set lower_chars \<or> c \<in> set digit_chars \<or> c = CHR ''-'')"

subsection \<open>Random identifiers and tokens\<close>

text \<open>
  \<^verbatim>\<open>crypto.randomBytes(n).toString("hex")\<close> is a function of the \<open>8n\<close> random bits drawn;
  the bits are an argument of every operation that draws them.
\<close>

definition hex_digit :: "int \<Rightarrow> char" where
  "hex_digit n = ''0123456789abcdef'' ! nat (n mod 16)"

text \<open>The last \<open>k\<close> hexadecimal digits of \<open>x\<close>.\<close>

fun hex_int :: "nat \<Rightarrow> int \<Rightarrow> string" where
  "hex_int 0 x = []"
| "hex_int (Suc k) x = hex_int k (x div 16) @ [hex_digit x]"

definition to_hex :: "'a::len word \<Rightarrow> string" where
  "to_hex w = hex_int (LENGTH('a) div 4) (uint w)"

text \<open>A key that \<^verbatim>\<open>String(k || "").trim()\<close> leaves as it is.\<close>

definition clean_id :: "string \<Rightarrow> bool" where
  "clean_id k \<longleftrightarrow> k \<noteq> [] \<and> trim k = k"

definition generateId :: "string \<Rightarrow> 64 word \<Rightarrow> string" where
  "generateId prefix r = prefix @ ''_'' @ to_hex r"

definition randomToken12 :: "96 word \<Rightarrow> string" where
  "randomToken12 r = to_hex r"

definition randomToken16 :: "128 word \<Rightarrow> string" where
  "randomToken16 r = to_hex r"

subsection \<open>JSON values and the canonical serialization\<close>

text \<open>
  The webhook payload is what \<^verbatim>\<open>JSON.parse\<close> can produce; a missing argument or
  property reads as \<open>JNull\<close> (the source treats \<^verbatim>\<open>undefined\<close> and \<^verbatim>\<open>null\<close> alike on
  every path modelled here).  Numbers are restricted to integers, printed in decimal;
  an object is an association list with distinct keys.
\<close>

datatype jsval =
    JNull
  | JBool bool
  | JNum int
  | JStr string
  | JArr "jsval list"
  | JObj "(string \<times> jsval) list"

function show_nat :: "nat \<Rightarrow> string" where
  "show_nat n = (if n < 10 then [digit_chars ! n] else show_nat (n div 10) @ [digit_chars ! (n mod 10)])"
  by pat_completeness auto
termination
  by (relation "measure id") auto

definition show_int :: "int \<Rightarrow> string" where
  "show_int i = (if i < 0 then CHR ''-'' # show_nat (nat (- i)) else show_nat (nat i))"

fun join :: "string \<Rightarrow> string list \<Rightarrow> string" where
  "join sep [] = []"
| "join sep [x] = x"
| "join sep (x # y # ys) = x @ sep @ join sep (y # ys)"

text \<open>\<^verbatim>\<open>payload?.name\<close>.\<close>

fun field :: "jsval \<Rightarrow> string \<Rightarrow> jsval" where
  "field (JObj kvs) k = (case map_of kvs k of Some v \<Rightarrow> v | None \<Rightarrow> JNull)"
| "field _ k = JNull"

text \<open>JavaScript truthiness.\<close>

fun truthy :: "jsval \<Rightarrow> bool" where
  "truthy JNull = False"
| "truthy (JBool b) = b"
| "truthy (JNum n) = (n \<noteq> 0)"
| "truthy (JStr s) = (s \<noteq> [])"
| "truthy (JArr xs) = True"
| "truthy (JObj kvs) = True"

text \<open>\<^verbatim>\<open>String(v)\<close>; inside an array, \<^verbatim>\<open>null\<close> prints as the empty string.\<close>

fun js_String :: "jsval \<Rightarrow> string" where
  "js_String JNull = ''null''"
| "js_String (JBool b) = (if b then ''true'' else ''false'')"
| "js_String (JNum n) = show_int n"
| "js_String (JStr s) = s"
| "js_String (JArr xs) = join '','' (map (\<lambda>x. if x = JNull then [] else js_String x) xs)"
| "js_String (JObj kvs) = ''[object Object]''"

text \<open>\<^verbatim>\<open>String(v || "")\<close>.\<close>

definition str_or_empty :: "jsval \<Rightarrow> string" where
  "str_or_empty v = (if truthy v then js_String v else [])"

text \<open>\<^verbatim>\<open>JSON.stringify\<close> of a string: quoted, with the JSON escapes.\<close>

definition json_escape_char :: "char \<Rightarrow> string" where
  "json_escape_char c =
     (if c = CHR 0x22 then [CHR 0x5C, CHR 0x22]
      else if c = CHR 0x5C then [CHR 0x5C, CHR 0x5C]
      else if c = CHR 0x08 then [CHR 0x5C, CHR ''b'']
      else if c = CHR 0x09 then [CHR 0x5C, CHR ''t'']
      else if c = CHR 0x0A then [CHR 0x5C, CHR ''n'']
      else if c = CHR 0x0C then [CHR 0x5C, CHR ''f'']
      else if c = CHR 0x0D then [CHR 0x5C, CHR ''r'']
      else if (of_char c :: nat) < 32 then [CHR 0x5C, CHR ''u''] @ hex_int 4 (of_char c)
      else [c])"

definition json_string :: "string \<Rightarrow> string" where
  "json_string s = [CHR 0x22] @ concat (map json_escape_char s) @ [CHR 0x22]"

text \<open>
  \<^verbatim>\<open>stableStringify\<close>: primitives as \<^verbatim>\<open>JSON.stringify\<close> prints them, arrays in order,
  objects with their keys sorted ascending, no white space.
\<close>

fun stableStringify :: "jsval \<Rightarrow> string" where
  "stableStringify JNull = ''null''"
| "stableStringify (JBool b) = (if b then ''true'' else ''false'')"
| "stableStringify (JNum n) = show_int n"
| "stableStringify (JStr s) = json_string s"
| "stableStringify (JArr xs) = ''['' @ join '','' (map stableStringify xs) @ '']''"
| "stableStringify (JObj kvs) =
     ''{'' @ join '',''
        (map (\<lambda>p. json_string (fst p) @ '':'' @ snd p)
          (sort_key fst (map (\<lambda>p. (fst p, stableStringify (snd p))) kvs))) @ ''}''"


section \<open>The data model\<close>

text \<open>
  The in-memory store of src/app.js.  Every JavaScript \<^verbatim>\<open>Map\<close> is an association list
  in insertion order: \<^verbatim>\<open>m.get(k)\<close> is \<^term>\<open>map_of m k\<close>, \<^verbatim>\<open>m.set(k, v)\<close> is
  \<^term>\<open>AList.update k v m\<close> (in place for a known key, appended for a new one), and
  \<^verbatim>\<open>m.values()\<close> is \<^term>\<open>map snd m\<close>.  Mutating an object fetched from a map is an update
  of its entry.  The branding table, the audit log and the listing indices
  (\<^verbatim>\<open>courseIndex\<close>, \<^verbatim>\<open>orderIndex\<close>) are written but never read by the operations
  modelled here, and are left out; \<^verbatim>\<open>nowIso()\<close> is read once per operation and passed
  in as \<open>now\<close>.
\<close>

text \<open>
  An error is the message of the \<^verbatim>\<open>Error\<close> thrown, for instance
  \<^verbatim>\<open>throw new Error("SCHOOL_NOT_FOUND")\<close>.
\<close>

type_synonym error = string

datatype school_status = ACTIVE | SUSPENDED

record school =
  sc_id :: string
  sc_name :: string
  sc_slug :: string
  sc_status :: school_status
  sc_createdAt :: string
  sc_updatedAt :: string

datatype domain_type = Subdomain | Custom

record domainConfig =
  dc_id :: string
  dc_schoolId :: string
  dc_type :: domain_type
  dc_domain :: string
  dc_verified :: bool
  dc_verificationToken :: "string option"
  dc_createdAt :: string
  dc_verifiedAt :: "string option"

record localization =
  lo_schoolId :: string
  lo_defaultLanguage :: string
  lo_defaultCurrency :: string
  lo_timezone :: string
  lo_updatedAt :: string

record gatewayConfig =
  gw_schoolId :: string
  gw_provider :: string
  gw_mode :: string
  gw_webhookSecret :: string
  gw_updatedAt :: string

datatype promo_type = PERCENT | FIXED

record promo =
  pr_type :: promo_type
  pr_value :: rat
  pr_untilIso :: string

record pricing =
  price :: rat
  currency :: string
  promo :: "promo option"

datatype course_type = AI | IMPORT

datatype course_state =
    DRAFT | DRAFTING_STRUCTURE | STRUCTURE_APPROVED | GENERATING_FULL | DRAFT_READY
  | PUBLISHED

record lesson =
  l_title :: string
  l_externalUrl :: string

record module =
  m_title :: string
  m_objectives :: "string list"
  m_lessons :: "lesson list"

record aiInputs =
  theme :: string
  audience :: string
  level :: string
  hours :: rat
  language :: string

text \<open>
  Of the generated content only the tree of titles is kept: the lesson bodies, video
  scripts, slides, quizzes and artifacts of \<^verbatim>\<open>mockFullContent\<close> are fixed templates filled
  with these titles.
\<close>

record fullContent =
  fc_generatedAt :: string
  fc_modules :: "module list"

record course =
  c_id :: string
  c_schoolId :: string
  c_type :: course_type
  c_title :: string
  c_description :: string
  c_pricing :: pricing
  c_aiInputs :: "aiInputs option"
  c_structure :: "module list option"
  c_fullContent :: "fullContent option"
  c_state :: course_state
  c_createdAt :: string
  c_updatedAt :: string
  c_publishedAt :: "string option"

datatype order_status = PENDING | PAID | FAILED | CANCELED

record order =
  o_id :: string
  o_schoolId :: string
  o_courseId :: string
  o_buyerEmail :: string
  o_amount :: rat
  o_currency :: string
  o_status :: order_status
  o_createdAt :: string
  o_updatedAt :: string
  o_paidAt :: "string option"

datatype payment_status = INITIATED | SUCCEEDED | PAYMENT_FAILED

record payment =
  p_id :: string
  p_schoolId :: string
  p_orderId :: string
  p_provider :: string
  p_status :: payment_status
  p_createdAt :: string
  p_updatedAt :: string

record snapshot =
  snap_ok :: bool
  snap_provider :: string
  snap_eventId :: string
  snap_schoolId :: string
  snap_orderId :: string
  snap_paymentId :: string
  snap_orderStatus :: order_status

text \<open>
  The recorded payload is \<^verbatim>\<open>JSON.parse(stableStringify(payload))\<close>, a function of the
  canonical serialization, which is what the record keeps here.
\<close>

record webhookEvent =
  we_id :: string
  we_provider :: string
  we_schoolId :: string
  we_orderId :: string
  we_paymentId :: string
  we_receivedAt :: string
  we_payload :: string
  we_signature :: string
  we_resultSnapshot :: snapshot

record enrollment =
  en_id :: string
  en_schoolId :: string
  en_buyerEmail :: string
  en_courseId :: string
  en_orderId :: string
  en_createdAt :: string

record db =
  schools :: "(string \<times> school) list"
  domains :: "(string \<times> domainConfig) list"
  localizations :: "(string \<times> localization) list"
  gateway :: "(string \<times> gatewayConfig) list"
  courses :: "(string \<times> course) list"
  orders :: "(string \<times> order) list"
  payments :: "(string \<times> payment) list"
  webhookEvents :: "(string \<times> webhookEvent) list"
  enrollments :: "(string \<times> enrollment) list"
  byCustomDomain :: "(string \<times> string) list"
  bySubdomain :: "(string \<times> string) list"
  bySchoolBuyerCourse :: "(string \<times> string) list"

definition init_db :: db where
  "init_db = \<lparr> schools = [], domains = [], localizations = [], gateway = [], courses = [],
     orders = [], payments = [], webhookEvents = [], enrollments = [],
     byCustomDomain = [], bySubdomain = [], bySchoolBuyerCourse = [] \<rparr>"

text \<open>
  What the operations take from the JavaScript runtime: the HMAC-SHA256 digest (256 bits,
  printed in hex) and the time value of \<^verbatim>\<open>new Date(s)\<close> in milliseconds (\<open>None\<close> for an
  invalid date).
\<close>

record runtime =
  hmac_digest :: "string \<Rightarrow> string \<Rightarrow> 256 word"
  dateParse :: "string \<Rightarrow> int option"

definition hmacSha256 :: "runtime \<Rightarrow> string \<Rightarrow> string \<Rightarrow> string" where
  "hmacSha256 rt secret message = to_hex (hmac_digest rt secret message)"

text \<open>
  An operation returns its value or the error it throws, together with the store as it
  is at that moment.
\<close>

type_synonym 'a res = "(error + 'a) \<times> db"

definition baseDomain :: string where
  "baseDomain = ''platform.local''"

definition demoCheckoutBaseUrl :: string where
  "demoCheckoutBaseUrl = ''https://checkout.demo.local''"

section \<open>Schools and the tenant directory\<close>

definition assertSchoolActive :: "string \<Rightarrow> db \<Rightarrow> error + school" where
  "assertSchoolActive schoolId s =
     (case map_of (schools s) schoolId of
        None \<Rightarrow> Inl ''SCHOOL_NOT_FOUND''
      | Some school \<Rightarrow>
          if sc_status school \<noteq> ACTIVE then Inl ''SCHOOL_SUSPENDED'' else Inr school)"

definition ensureDefaultSubdomainForSchool ::
    "64 word \<Rightarrow> string \<Rightarrow> string \<Rightarrow> db \<Rightarrow> domainConfig res" where
  "ensureDefaultSubdomainForSchool rdom now schoolId s =
     (case map_of (schools s) schoolId of
        None \<Rightarrow> (Inl ''SCHOOL_NOT_FOUND'', s)
      | Some school \<Rightarrow>
          let host = normalizeHost (sc_slug school @ ''.'' @ baseDomain) in
          if (case map_of (bySubdomain s) host of
                None \<Rightarrow> False
              | Some existing \<Rightarrow> existing \<noteq> [] \<and> existing \<noteq> schoolId)
          then (Inl ''SUBDOMAIN_COLLISION'', s)
          else
            let s1 = s\<lparr>bySubdomain := AList.update host schoolId (bySubdomain s)\<rparr> in
            (case find (\<lambda>d. dc_type d = Subdomain \<and> dc_schoolId d = schoolId)
                    (map snd (domains s1)) of
               Some already \<Rightarrow> (Inr already, s1)
             | None \<Rightarrow>
                 let domainConfig =
                       \<lparr> dc_id = generateId ''dom'' rdom, dc_schoolId = schoolId,
                         dc_type = Subdomain, dc_domain = host, dc_verified = True,
                         dc_verificationToken = None, dc_createdAt = now,
                         dc_verifiedAt = Some now \<rparr>
                 in (Inr domainConfig,
                     s1\<lparr>domains :=
                          AList.update (dc_id domainConfig) domainConfig (domains s1)\<rparr>)))"

definition createSchool ::
    "64 word \<Rightarrow> 64 word \<Rightarrow> 128 word \<Rightarrow> string \<Rightarrow> string \<Rightarrow> string \<Rightarrow> db \<Rightarrow> school res" where
  "createSchool rid rdom rsecret now name slug s =
     (let n = trim name; sl = toLowerCase (trim slug) in
      if n = [] then (Inl ''SCHOOL_NAME_REQUIRED'', s)
      else if sl = [] then (Inl ''SCHOOL_SLUG_REQUIRED'', s)
      else if \<not> slug_ok sl then (Inl ''SCHOOL_SLUG_INVALID'', s)
      else if list_ex (\<lambda>existing. sc_slug existing = sl) (map snd (schools s))
      then (Inl ''SCHOOL_SLUG_ALREADY_EXISTS'', s)
      else
        let school = \<lparr> sc_id = generateId ''sch'' rid, sc_name = n, sc_slug = sl,
                        sc_status = ACTIVE, sc_createdAt = now, sc_updatedAt = now \<rparr>;
            s1 = s\<lparr>schools := AList.update (sc_id school) school (schools s)\<rparr>
        in (case ensureDefaultSubdomainForSchool rdom now (sc_id school) s1 of
              (Inl e, s2) \<Rightarrow> (Inl e, s2)
            | (Inr _, s2) \<Rightarrow>
                let s3 = (if map_of (localizations s2) (sc_id school) = None
                          then s2\<lparr>localizations :=
                                 AList.update (sc_id school)
                                   \<lparr> lo_schoolId = sc_id school, lo_defaultLanguage = ''pt-BR'',
                                     lo_defaultCurrency = ''BRL'',
                                     lo_timezone = ''America/Sao_Paulo'', lo_updatedAt = now \<rparr>
                                   (localizations s2)\<rparr>
                          else s2);
                    s4 = (if map_of (gateway s3) (sc_id school) = None
                          then s3\<lparr>gateway :=
                                 AList.update (sc_id school)
                                   \<lparr> gw_schoolId = sc_id school, gw_provider = ''DEMO'',
                                     gw_mode = ''demo'',
                                     gw_webhookSecret = randomToken16 rsecret,
                                     gw_updatedAt = now \<rparr>
                                   (gateway s3)\<rparr>
                          else s3)
                in (Inr school, s4)))"

definition parse_school_status :: "string \<Rightarrow> school_status option" where
  "parse_school_status status =
     (if status = ''ACTIVE'' then Some ACTIVE
      else if status = ''SUSPENDED'' then Some SUSPENDED
      else None)"

definition setSchoolStatus :: "string \<Rightarrow> string \<Rightarrow> string \<Rightarrow> db \<Rightarrow> school res" where
  "setSchoolStatus now schoolId status s =
     (case map_of (schools s) schoolId of
        None \<Rightarrow> (Inl ''SCHOOL_NOT_FOUND'', s)
      | Some school \<Rightarrow>
          (case parse_school_status status of
             None \<Rightarrow> (Inl ''SCHOOL_STATUS_INVALID'', s)
           | Some st \<Rightarrow>
               let school' = school\<lparr>sc_status := st, sc_updatedAt := now\<rparr>
               in (Inr school', s\<lparr>schools := AList.update schoolId school' (schools s)\<rparr>)))"

text \<open>
  \<^verbatim>\<open>Array.from(m.values()).find(p)\<close> followed by assignments to the object found: the
  first value that satisfies \<open>p\<close> is replaced where it stands.
\<close>

fun update_first :: "('v \<Rightarrow> bool) \<Rightarrow> ('v \<Rightarrow> 'v) \<Rightarrow> ('k \<times> 'v) list \<Rightarrow> ('k \<times> 'v) list" where
  "update_first P f [] = []"
| "update_first P f (kv # kvs) =
     (if P (snd kv) then (fst kv, f (snd kv)) # kvs else kv # update_first P f kvs)"

definition requestCustomDomain ::
    "96 word \<Rightarrow> 64 word \<Rightarrow> string \<Rightarrow> string \<Rightarrow> string \<Rightarrow> db \<Rightarrow> domainConfig res" where
  "requestCustomDomain rtoken rid now schoolId domain s =
     (case assertSchoolActive schoolId s of
        Inl e \<Rightarrow> (Inl e, s)
      | Inr _ \<Rightarrow>
          let d = normalizeDomain domain in
          if \<not> isValidDomainLike d then (Inl ''CUSTOM_DOMAIN_INVALID'', s)
          else if endsWith d (''.'' @ baseDomain) then (Inl ''CUSTOM_DOMAIN_NOT_ALLOWED'', s)
          else if (case map_of (byCustomDomain s) d of
                     None \<Rightarrow> False
                   | Some takenId \<Rightarrow>
                       takenId \<noteq> [] \<and>
                       (case map_of (domains s) takenId of
                          None \<Rightarrow> False
                        | Some taken \<Rightarrow> dc_schoolId taken \<noteq> schoolId))
          then (Inl ''CUSTOM_DOMAIN_ALREADY_IN_USE'', s)
          else
            let isExisting = (\<lambda>x. dc_type x = Custom \<and> dc_schoolId x = schoolId \<and> dc_domain x = d);
                token = randomToken12 rtoken
            in (case find isExisting (map snd (domains s)) of
                  Some existing \<Rightarrow>
                    let reset = (\<lambda>x. x\<lparr>dc_verified := False, dc_verificationToken := Some token,
                                        dc_verifiedAt := None\<rparr>)
                    in (Inr (reset existing),
                        s\<lparr>domains := update_first isExisting reset (domains s),
                          byCustomDomain := AList.update d (dc_id existing) (byCustomDomain s)\<rparr>)
                | None \<Rightarrow>
                    let cfg = \<lparr> dc_id = generateId ''dom'' rid, dc_schoolId = schoolId,
                                 dc_type = Custom, dc_domain = d, dc_verified = False,
                                 dc_verificationToken = Some token, dc_createdAt = now,
                                 dc_verifiedAt = None \<rparr>
                    in (Inr cfg,
                        s\<lparr>domains := AList.update (dc_id cfg) cfg (domains s),
                          byCustomDomain := AList.update d (dc_id cfg) (byCustomDomain s)\<rparr>)))"

definition verifyCustomDomain ::
    "string \<Rightarrow> string \<Rightarrow> string \<Rightarrow> string \<Rightarrow> db \<Rightarrow> domainConfig res" where
  "verifyCustomDomain now schoolId domain token s =
     (case assertSchoolActive schoolId s of
        Inl e \<Rightarrow> (Inl e, s)
      | Inr _ \<Rightarrow>
          let d = normalizeDomain domain in
          (case map_of (byCustomDomain s) d of
             None \<Rightarrow> (Inl ''CUSTOM_DOMAIN_NOT_REQUESTED'', s)
           | Some domainId \<Rightarrow>
               if domainId = [] then (Inl ''CUSTOM_DOMAIN_NOT_REQUESTED'', s)
               else
                 (case map_of (domains s) domainId of
                    None \<Rightarrow> (Inl ''CUSTOM_DOMAIN_NOT_REQUESTED'', s)
                  | Some cfg \<Rightarrow>
                      if dc_type cfg \<noteq> Custom then (Inl ''CUSTOM_DOMAIN_INVALID_STATE'', s)
                      else if dc_schoolId cfg \<noteq> schoolId
                      then (Inl ''CUSTOM_DOMAIN_OWNERSHIP_MISMATCH'', s)
                      else
                        let provided = trim token in
                        if (case dc_verificationToken cfg of None \<Rightarrow> True | Some t \<Rightarrow> t = [])
                        then (Inl ''CUSTOM_DOMAIN_MISSING_TOKEN'', s)
                        else if Some provided \<noteq> dc_verificationToken cfg
                        then (Inl ''CUSTOM_DOMAIN_TOKEN_INVALID'', s)
                        else
                          let cfg' = cfg\<lparr>dc_verified := True, dc_verifiedAt := Some now\<rparr>
                          in (Inr cfg', s\<lparr>domains := AList.update domainId cfg' (domains s)\<rparr>))))"

definition resolveSchoolByHost :: "string \<Rightarrow> db \<Rightarrow> school option" where
  "resolveSchoolByHost host s =
     (let h = normalizeHost host in
      if h = [] then None
      else
        (case (case map_of (byCustomDomain s) h of
                 None \<Rightarrow> None
               | Some customId \<Rightarrow>
                   if customId = [] then None
                   else
                     (case map_of (domains s) customId of
                        None \<Rightarrow> None
                      | Some cfg \<Rightarrow>
                          if dc_type cfg = Custom \<and> dc_verified cfg then Some cfg else None)) of
           Some cfg \<Rightarrow> map_of (schools s) (dc_schoolId cfg)
         | None \<Rightarrow>
             (case map_of (bySubdomain s) h of
                None \<Rightarrow> None
              | Some schoolId \<Rightarrow>
                  if schoolId = [] then None else map_of (schools s) schoolId)))"

subsection \<open>Localization and gateway\<close>

text \<open>
  A patch carries the properties it sets; a property that is set to something other
  than a string fails the \<^verbatim>\<open>typeof\<close> test as a missing one does, and is not modelled
  apart.
\<close>

record localizationPatch =
  lp_defaultLanguage :: "string option"
  lp_defaultCurrency :: "string option"
  lp_timezone :: "string option"

definition patched :: "'a option \<Rightarrow> 'a option \<Rightarrow> 'a option" where
  "patched cur new = (case new of Some v \<Rightarrow> Some v | None \<Rightarrow> cur)"

definition updateLocalization ::
    "string \<Rightarrow> string \<Rightarrow> localizationPatch \<Rightarrow> db \<Rightarrow> localization res" where
  "updateLocalization now schoolId patch s =
     (case assertSchoolActive schoolId s of
        Inl e \<Rightarrow> (Inl e, s)
      | Inr _ \<Rightarrow>
          let current = map_of (localizations s) schoolId;
              lang = patched (map_option lo_defaultLanguage current) (lp_defaultLanguage patch);
              cur = patched (map_option lo_defaultCurrency current) (lp_defaultCurrency patch);
              tz = patched (map_option lo_timezone current) (lp_timezone patch)
          in (case lang of
                None \<Rightarrow> (Inl ''LOCALIZATION_LANGUAGE_INVALID'', s)
              | Some l \<Rightarrow>
                  if trim l = [] then (Inl ''LOCALIZATION_LANGUAGE_INVALID'', s)
                  else
                    (case cur of
                       None \<Rightarrow> (Inl ''LOCALIZATION_CURRENCY_INVALID'', s)
                     | Some c \<Rightarrow>
                         if length (trim c) \<noteq> 3 then (Inl ''LOCALIZATION_CURRENCY_INVALID'', s)
                         else
                           (case tz of
                              None \<Rightarrow> (Inl ''LOCALIZATION_TIMEZONE_INVALID'', s)
                            | Some t \<Rightarrow>
                                if trim t = [] then (Inl ''LOCALIZATION_TIMEZONE_INVALID'', s)
                                else
                                  let next = \<lparr> lo_schoolId = schoolId, lo_defaultLanguage = l,
                                                lo_defaultCurrency = c, lo_timezone = t,
                                                lo_updatedAt = now \<rparr>
                                  in (Inr next,
                                      s\<lparr>localizations :=
                                           AList.update schoolId next (localizations s)\<rparr>)))))"

definition rotateWebhookSecret :: "128 word \<Rightarrow> string \<Rightarrow> string \<Rightarrow> db \<Rightarrow> gatewayConfig res" where
  "rotateWebhookSecret rsecret now schoolId s =
     (case assertSchoolActive schoolId s of
        Inl e \<Rightarrow> (Inl e, s)
      | Inr _ \<Rightarrow>
          (case map_of (gateway s) schoolId of
             None \<Rightarrow> (Inl ''GATEWAY_NOT_CONFIGURED'', s)
           | Some g \<Rightarrow>
               let g' = g\<lparr>gw_webhookSecret := randomToken16 rsecret, gw_updatedAt := now\<rparr>
               in (Inr g', s\<lparr>gateway := AList.update schoolId g' (gateway s)\<rparr>)))"

section \<open>Pricing\<close>

text \<open>
  A JavaScript number is a binary64 double.  A finite double is a rational number, and
  the model keeps type \<^typ>\<open>rat\<close>: every arithmetic operation of the source is the
  exact operation followed by \<open>fl\<close>, rounding to the nearest double, a tie going to
  the even significand.  The exponent is not bounded: overflow to \<^verbatim>\<open>Infinity\<close> and
  subnormal numbers are outside the model.  A number that enters from outside
  (\<^verbatim>\<open>Number(price)\<close>) is taken to be a double already; a decimal literal such as
  \<^verbatim>\<open>10.03\<close> is \<open>fl (1003 / 100)\<close>.
\<close>

function bit_length :: "int \<Rightarrow> nat" where
  "bit_length a = (if a \<le> 0 then 0 else Suc (bit_length (a div 2)))"
  by pat_completeness auto
termination
  by (relation "measure nat") auto

definition pow2 :: "int \<Rightarrow> rat" where
  "pow2 e = (if e \<ge> 0 then 2 ^ nat e else 1 / 2 ^ nat (- e))"

text \<open>The exponent \<open>e\<close> with \<open>2 ^ e \<le> x < 2 ^ (e + 1)\<close>, for a positive \<open>x\<close>.\<close>

definition ilog2 :: "rat \<Rightarrow> int" where
  "ilog2 x =
     (let d = int (bit_length (fst (quotient_of x))) - int (bit_length (snd (quotient_of x)))
      in if pow2 d \<le> x then d else d - 1)"

definition round_half_even :: "rat \<Rightarrow> int" where
  "round_half_even q =
     (let f = \<lfloor>q\<rfloor>; r = q - of_int f
      in if r < 1 / 2 then f else if r > 1 / 2 then f + 1 else if even f then f else f + 1)"

definition fl :: "rat \<Rightarrow> rat" where
  "fl x =
     (if x = 0 then 0
      else
        let u = pow2 (ilog2 \<bar>x\<bar> - 52)
        in sgn x * of_int (round_half_even (\<bar>x\<bar> / u)) * u)"

text \<open>\<^verbatim>\<open>Math.round\<close>: the nearest integer, a tie going upwards.\<close>

definition Math_round :: "rat \<Rightarrow> int" where
  "Math_round x = \<lfloor>x + 1 / 2\<rfloor>"

text \<open>\<^verbatim>\<open>Math.round(n * 100) / 100\<close>.\<close>

definition round2 :: "rat \<Rightarrow> rat" where
  "round2 n = fl (of_int (Math_round (fl (n * 100))) / 100)"

text \<open>
  A promo as the caller passes it.  \<open>pi_value = None\<close> stands for a value whose
  \<^verbatim>\<open>Number(...)\<close> is not finite, and an empty \<open>pi_untilIso\<close> for a missing one.
\<close>

record promo_in =
  pi_type :: string
  pi_value :: "rat option"
  pi_untilIso :: string

definition normalizePromo :: "promo_in \<Rightarrow> rat \<Rightarrow> error + promo" where
  "normalizePromo p basePrice =
     (let type = toUpperCase (trim (pi_type p));
          untilIso = (if pi_untilIso p \<noteq> [] then trim (pi_untilIso p) else [])
      in if type \<noteq> ''PERCENT'' \<and> type \<noteq> ''FIXED'' then Inl ''PROMO_TYPE_INVALID''
         else
           (case pi_value p of
              None \<Rightarrow> Inl ''PROMO_VALUE_INVALID''
            | Some v \<Rightarrow>
                if v \<le> 0 then Inl ''PROMO_VALUE_INVALID''
                else if untilIso = [] then Inl ''PROMO_UNTIL_REQUIRED''
                else if type = ''PERCENT'' \<and> v \<ge> 100 then Inl ''PROMO_PERCENT_INVALID''
                else if type = ''FIXED'' \<and> v \<ge> basePrice then Inl ''PROMO_FIXED_INVALID''
                else Inr \<lparr> pr_type = (if type = ''PERCENT'' then PERCENT else FIXED),
                           pr_value = round2 v, pr_untilIso = untilIso \<rparr>))"

text \<open>\<open>p = None\<close> stands for a price whose \<^verbatim>\<open>Number(...)\<close> is not finite.\<close>

definition normalizePricing :: "rat option \<Rightarrow> string \<Rightarrow> promo_in option \<Rightarrow> error + pricing" where
  "normalizePricing p cur0 pr0 =
     (case p of
        None \<Rightarrow> Inl ''COURSE_PRICE_INVALID''
      | Some p \<Rightarrow>
          if p \<le> 0 then Inl ''COURSE_PRICE_INVALID''
          else
            let cur = toUpperCase (trim cur0) in
            if cur = [] \<or> length cur \<noteq> 3 then Inl ''COURSE_CURRENCY_INVALID''
            else
              let pricing = \<lparr> price = round2 p, currency = cur, promo = None \<rparr> in
              (case pr0 of
                 None \<Rightarrow> Inr pricing
               | Some pin \<Rightarrow>
                   (case normalizePromo pin (price pricing) of
                      Inl e \<Rightarrow> Inl e
                    | Inr pr \<Rightarrow> Inr (pricing\<lparr>promo := Some pr\<rparr>))))"

text \<open>
  \<open>now\<close> is \<^verbatim>\<open>now.getTime()\<close>.  The promo type of a stored pricing is one of the two
  the source tests for, so its last \<^verbatim>\<open>return pricing.price\<close> has no counterpart.
\<close>

definition getEffectivePrice :: "runtime \<Rightarrow> pricing \<Rightarrow> int \<Rightarrow> rat" where
  "getEffectivePrice rt pricing now =
     (case promo pricing of
        None \<Rightarrow> price pricing
      | Some pr \<Rightarrow>
          (case dateParse rt (pr_untilIso pr) of
             None \<Rightarrow> price pricing
           | Some until \<Rightarrow>
               if now > until then price pricing
               else
                 (case pr_type pr of
                    PERCENT \<Rightarrow>
                      round2 (fl (price pricing * fl (1 - fl (pr_value pr / 100))))
                  | FIXED \<Rightarrow> round2 (fl (price pricing - pr_value pr)))))"

section \<open>Course lifecycle\<close>

definition getCourseOrThrow :: "string \<Rightarrow> db \<Rightarrow> error + course" where
  "getCourseOrThrow courseId s =
     (case map_of (courses s) courseId of
        None \<Rightarrow> Inl ''COURSE_NOT_FOUND''
      | Some c \<Rightarrow> Inr c)"

text \<open>
  The three checks that open every course operation: \<^verbatim>\<open>assertSchoolActive\<close>,
  \<^verbatim>\<open>getCourseOrThrow\<close>, \<^verbatim>\<open>assertCourseSchoolAccess\<close>.
\<close>

definition courseForSchool :: "string \<Rightarrow> string \<Rightarrow> db \<Rightarrow> error + course" where
  "courseForSchool schoolId courseId s =
     (case assertSchoolActive schoolId s of
        Inl e \<Rightarrow> Inl e
      | Inr _ \<Rightarrow>
          (case getCourseOrThrow courseId s of
             Inl e \<Rightarrow> Inl e
           | Inr course \<Rightarrow>
               if c_schoolId course \<noteq> schoolId then Inl ''COURSE_ACCESS_DENIED''
               else Inr course))"

text \<open>
  The fields \<^verbatim>\<open>tags\<close> and \<^verbatim>\<open>category\<close> of a course are set to \<^verbatim>\<open>[]\<close> and \<^verbatim>\<open>null\<close> at
  creation and never written again; the record does not carry them.
\<close>

definition createCourse ::
    "course_type \<Rightarrow> 64 word \<Rightarrow> string \<Rightarrow> string \<Rightarrow> string \<Rightarrow> string \<Rightarrow> rat option \<Rightarrow> string \<Rightarrow>
     promo_in option \<Rightarrow> db \<Rightarrow> course res" where
  "createCourse type rid now schoolId title description p cur0 pr0 s =
     (case assertSchoolActive schoolId s of
        Inl e \<Rightarrow> (Inl e, s)
      | Inr _ \<Rightarrow>
          let t = trim title in
          if t = [] then (Inl ''COURSE_TITLE_REQUIRED'', s)
          else
            let loc = map_of (localizations s) schoolId;
                cur = trim (if cur0 \<noteq> [] then cur0
                            else (case loc of Some l \<Rightarrow> lo_defaultCurrency l | None \<Rightarrow> ''BRL''))
            in (case normalizePricing p cur pr0 of
                  Inl e \<Rightarrow> (Inl e, s)
                | Inr pricing \<Rightarrow>
                    let course =
                          \<lparr> c_id = generateId ''crs'' rid, c_schoolId = schoolId, c_type = type,
                            c_title = t, c_description = trim description,
                            c_pricing = pricing, c_aiInputs = None, c_structure = None,
                            c_fullContent = None, c_state = DRAFT, c_createdAt = now,
                            c_updatedAt = now, c_publishedAt = None \<rparr>
                    in (Inr course,
                        s\<lparr>courses := AList.update (c_id course) course (courses s)\<rparr>)))"

text \<open>
  \<^verbatim>\<open>createCourseAI\<close> and \<^verbatim>\<open>createCourseImport\<close> have the same body up to the type
  written into the course.
\<close>

definition createCourseAI ::
    "64 word \<Rightarrow> string \<Rightarrow> string \<Rightarrow> string \<Rightarrow> string \<Rightarrow> rat option \<Rightarrow> string \<Rightarrow>
     promo_in option \<Rightarrow> db \<Rightarrow> course res" where
  "createCourseAI = createCourse AI"

definition createCourseImport ::
    "64 word \<Rightarrow> string \<Rightarrow> string \<Rightarrow> string \<Rightarrow> string \<Rightarrow> rat option \<Rightarrow> string \<Rightarrow>
     promo_in option \<Rightarrow> db \<Rightarrow> course res" where
  "createCourseImport = createCourse IMPORT"

record aiInputs_in =
  ai_theme :: string
  ai_audience :: string
  ai_level :: string
  ai_hours :: "rat option"
  ai_language :: string

definition normalizeAiInputs :: "aiInputs_in \<Rightarrow> error + aiInputs" where
  "normalizeAiInputs inputs =
     (let th = trim (ai_theme inputs); au = trim (ai_audience inputs);
          lv = trim (ai_level inputs); la = trim (ai_language inputs)
      in if th = [] then Inl ''AI_INPUT_THEME_REQUIRED''
         else if au = [] then Inl ''AI_INPUT_AUDIENCE_REQUIRED''
         else if lv = [] then Inl ''AI_INPUT_LEVEL_REQUIRED''
         else
           (case ai_hours inputs of
              None \<Rightarrow> Inl ''AI_INPUT_HOURS_INVALID''
            | Some h \<Rightarrow>
                if h < 8 \<or> h > 40 then Inl ''AI_INPUT_HOURS_INVALID''
                else if la = [] then Inl ''AI_INPUT_LANGUAGE_REQUIRED''
                else Inr \<lparr> theme = th, audience = au, level = lv, hours = h, language = la \<rparr>))"

text \<open>The module titles of the mock, in UTF-8.\<close>

definition mock_base :: "string list" where
  "mock_base =
     [''Fundamentos'',
      ''Aplica'' @ [CHR 0xC3, CHR 0xA7, CHR 0xC3, CHR 0xA3] @ ''o'',
      ''Projeto'']"

definition mockStructureFromInputs :: "aiInputs \<Rightarrow> module list" where
  "mockStructureFromInputs inp =
     map (\<lambda>mTitle.
        \<lparr> m_title = mTitle @ [CHR '' '', CHR 0xE2, CHR 0x80, CHR 0x94, CHR '' ''] @ theme inp,
          m_objectives =
            [''Compreender os pontos centrais de '' @ toLowerCase mTitle @ ''.'',
             ''Aplicar '' @ toLowerCase mTitle @ '' em cen'' @ [CHR 0xC3, CHR 0xA1] @ ''rios t''
               @ [CHR 0xC3, CHR 0xAD] @ ''picos.'',
             ''Consolidar com exerc'' @ [CHR 0xC3, CHR 0xAD] @ ''cio orientado.''],
          m_lessons =
            map (\<lambda>t. \<lparr> l_title = t, l_externalUrl = [] \<rparr>)
              [mTitle @ '': conceitos-chave'',
               mTitle @ '': pr'' @ [CHR 0xC3, CHR 0xA1] @ ''tica guiada'',
               mTitle @ '': exerc'' @ [CHR 0xC3, CHR 0xAD] @ ''cio e revis''
                 @ [CHR 0xC3, CHR 0xA3] @ ''o''] \<rparr>)
       mock_base"

definition aiGenerateStructure ::
    "string \<Rightarrow> string \<Rightarrow> string \<Rightarrow> aiInputs_in \<Rightarrow> db \<Rightarrow> course res" where
  "aiGenerateStructure now schoolId courseId inputs s =
     (case courseForSchool schoolId courseId s of
        Inl e \<Rightarrow> (Inl e, s)
      | Inr course \<Rightarrow>
          if c_type course \<noteq> AI then (Inl ''COURSE_NOT_AI'', s)
          else if c_state course \<noteq> DRAFT then (Inl ''COURSE_INVALID_STATE'', s)
          else
            (case normalizeAiInputs inputs of
               Inl e \<Rightarrow> (Inl e, s)
             | Inr normalized \<Rightarrow>
                 let course' = course\<lparr>c_aiInputs := Some normalized,
                                      c_state := DRAFTING_STRUCTURE,
                                      c_structure := Some (mockStructureFromInputs normalized),
                                      c_updatedAt := now\<rparr>
                 in (Inr course', s\<lparr>courses := AList.update courseId course' (courses s)\<rparr>)))"

text \<open>
  A structure is the list of its modules; a value that is not an array of modules
  counts as the empty list, and lessons likewise.
\<close>

fun structureLessons :: "lesson list \<Rightarrow> error option" where
  "structureLessons [] = None"
| "structureLessons (l # ls) =
     (if trim (l_title l) = [] then Some ''COURSE_STRUCTURE_LESSON_TITLE_REQUIRED''
      else structureLessons ls)"

fun structureModules :: "module list \<Rightarrow> error option" where
  "structureModules [] = None"
| "structureModules (m # ms) =
     (if trim (m_title m) = [] then Some ''COURSE_STRUCTURE_MODULE_TITLE_REQUIRED''
      else if m_lessons m = [] then Some ''COURSE_STRUCTURE_LESSONS_REQUIRED''
      else (case structureLessons (m_lessons m) of
              Some e \<Rightarrow> Some e
            | None \<Rightarrow> structureModules ms))"

definition editCourseStructure ::
    "string \<Rightarrow> string \<Rightarrow> string \<Rightarrow> module list \<Rightarrow> db \<Rightarrow> course res" where
  "editCourseStructure now schoolId courseId structure s =
     (case courseForSchool schoolId courseId s of
        Inl e \<Rightarrow> (Inl e, s)
      | Inr course \<Rightarrow>
          if c_state course \<noteq> DRAFTING_STRUCTURE
          then (Inl ''COURSE_STRUCTURE_NOT_EDITABLE'', s)
          else if structure = [] then (Inl ''COURSE_STRUCTURE_INVALID'', s)
          else
            (case structureModules structure of
               Some e \<Rightarrow> (Inl e, s)
             | None \<Rightarrow>
                 let course' = course\<lparr>c_structure := Some structure, c_updatedAt := now\<rparr>
                 in (Inr course', s\<lparr>courses := AList.update courseId course' (courses s)\<rparr>)))"

definition approveCourseStructure :: "string \<Rightarrow> string \<Rightarrow> string \<Rightarrow> db \<Rightarrow> course res" where
  "approveCourseStructure now schoolId courseId s =
     (case courseForSchool schoolId courseId s of
        Inl e \<Rightarrow> (Inl e, s)
      | Inr course \<Rightarrow>
          if c_state course \<noteq> DRAFTING_STRUCTURE then (Inl ''COURSE_INVALID_STATE'', s)
          else if (case c_structure course of None \<Rightarrow> True | Some ms \<Rightarrow> ms = [])
          then (Inl ''COURSE_STRUCTURE_MISSING'', s)
          else
            let course' = course\<lparr>c_state := STRUCTURE_APPROVED, c_updatedAt := now\<rparr>
            in (Inr course', s\<lparr>courses := AList.update courseId course' (courses s)\<rparr>))"

text \<open>
  \<^verbatim>\<open>mockFullContent\<close> reads \<^verbatim>\<open>course.structure.modules\<close>, a \<^verbatim>\<open>TypeError\<close> on a course
  without structure.
\<close>

definition mockFullContent :: "string \<Rightarrow> course \<Rightarrow> error + fullContent" where
  "mockFullContent now course =
     (case c_structure course of
        None \<Rightarrow> Inl ''TypeError''
      | Some ms \<Rightarrow>
          Inr \<lparr> fc_generatedAt = now,
                fc_modules =
                  map (\<lambda>m. \<lparr> m_title = m_title m, m_objectives = m_objectives m,
                              m_lessons =
                                map (\<lambda>l. \<lparr> l_title = l_title l, l_externalUrl = [] \<rparr>)
                                  (m_lessons m) \<rparr>) ms \<rparr>)"

definition aiGenerateFullCourse :: "string \<Rightarrow> string \<Rightarrow> string \<Rightarrow> db \<Rightarrow> course res" where
  "aiGenerateFullCourse now schoolId courseId s =
     (case courseForSchool schoolId courseId s of
        Inl e \<Rightarrow> (Inl e, s)
      | Inr course \<Rightarrow>
          if c_type course \<noteq> AI then (Inl ''COURSE_NOT_AI'', s)
          else if c_state course \<noteq> STRUCTURE_APPROVED then (Inl ''COURSE_INVALID_STATE'', s)
          else
            let course1 = course\<lparr>c_state := GENERATING_FULL, c_updatedAt := now\<rparr> in
            (case mockFullContent now course1 of
               Inl e \<Rightarrow> (Inl e, s\<lparr>courses := AList.update courseId course1 (courses s)\<rparr>)
             | Inr full \<Rightarrow>
                 let course2 = course1\<lparr>c_fullContent := Some full, c_state := DRAFT_READY,
                                       c_updatedAt := now\<rparr>
                 in (Inr course2, s\<lparr>courses := AList.update courseId course2 (courses s)\<rparr>)))"

fun importLessons :: "lesson list \<Rightarrow> error option" where
  "importLessons [] = None"
| "importLessons (l # ls) =
     (if trim (l_title l) = [] then Some ''COURSE_STRUCTURE_LESSON_TITLE_REQUIRED''
      else if trim (l_externalUrl l) = [] then Some ''COURSE_IMPORT_URL_REQUIRED''
      else importLessons ls)"

fun importModules :: "module list \<Rightarrow> error option" where
  "importModules [] = None"
| "importModules (m # ms) =
     (if trim (m_title m) = [] then Some ''COURSE_STRUCTURE_MODULE_TITLE_REQUIRED''
      else if m_lessons m = [] then Some ''COURSE_STRUCTURE_LESSONS_REQUIRED''
      else (case importLessons (m_lessons m) of
              Some e \<Rightarrow> Some e
            | None \<Rightarrow> importModules ms))"

definition validateImportStructure :: "module list \<Rightarrow> error option" where
  "validateImportStructure structure =
     (if structure = [] then Some ''COURSE_STRUCTURE_INVALID'' else importModules structure)"

definition setImportStructure ::
    "string \<Rightarrow> string \<Rightarrow> string \<Rightarrow> module list \<Rightarrow> db \<Rightarrow> course res" where
  "setImportStructure now schoolId courseId structure s =
     (case courseForSchool schoolId courseId s of
        Inl e \<Rightarrow> (Inl e, s)
      | Inr course \<Rightarrow>
          if c_type course \<noteq> IMPORT then (Inl ''COURSE_NOT_IMPORT'', s)
          else if c_state course \<noteq> DRAFT then (Inl ''COURSE_INVALID_STATE'', s)
          else
            (case validateImportStructure structure of
               Some e \<Rightarrow> (Inl e, s)
             | None \<Rightarrow>
                 let course' = course\<lparr>c_structure := Some structure, c_state := DRAFT_READY,
                                      c_updatedAt := now\<rparr>
                 in (Inr course', s\<lparr>courses := AList.update courseId course' (courses s)\<rparr>)))"

definition publishCourse :: "string \<Rightarrow> string \<Rightarrow> string \<Rightarrow> db \<Rightarrow> course res" where
  "publishCourse now schoolId courseId s =
     (case courseForSchool schoolId courseId s of
        Inl e \<Rightarrow> (Inl e, s)
      | Inr course \<Rightarrow>
          if c_state course \<noteq> DRAFT_READY then (Inl ''COURSE_NOT_READY_TO_PUBLISH'', s)
          else
            let course' = course\<lparr>c_state := PUBLISHED, c_publishedAt := Some now,
                                 c_updatedAt := now\<rparr>
            in (Inr course', s\<lparr>courses := AList.update courseId course' (courses s)\<rparr>))"

section \<open>Orders, payments, webhooks and enrollment\<close>

definition createOrder ::
    "runtime \<Rightarrow> 64 word \<Rightarrow> int \<Rightarrow> string \<Rightarrow> string \<Rightarrow> string \<Rightarrow> string \<Rightarrow> db \<Rightarrow> order res" where
  "createOrder rt rid nowMs now schoolId courseId buyerEmail s =
     (case courseForSchool schoolId courseId s of
        Inl e \<Rightarrow> (Inl e, s)
      | Inr course \<Rightarrow>
          if c_state course \<noteq> PUBLISHED then (Inl ''COURSE_NOT_FOR_SALE'', s)
          else
            let email = toLowerCase (trim buyerEmail) in
            if CHR ''@'' \<notin> set email then (Inl ''BUYER_EMAIL_INVALID'', s)
            else
              let order = \<lparr> o_id = generateId ''ord'' rid, o_schoolId = schoolId,
                             o_courseId = courseId, o_buyerEmail = email,
                             o_amount = getEffectivePrice rt (c_pricing course) nowMs,
                             o_currency = currency (c_pricing course), o_status = PENDING,
                             o_createdAt = now, o_updatedAt = now, o_paidAt = None \<rparr>
              in (Inr order, s\<lparr>orders := AList.update (o_id order) order (orders s)\<rparr>))"

text \<open>\<^verbatim>\<open>encodeURIComponent\<close>, on the bytes of the UTF-8 encoding.\<close>

definition uri_unreserved :: string where
  "uri_unreserved = upper_chars @ lower_chars @ digit_chars @ ''-_.!~*'' @ [CHR 0x27] @ ''()''"

definition encodeURIComponent :: "string \<Rightarrow> string" where
  "encodeURIComponent s =
     concat (map (\<lambda>c. if c \<in> set uri_unreserved then [c]
                       else CHR ''%'' # map upper_char (hex_int 2 (of_char c))) s)"

record checkout =
  checkoutUrl :: string
  wh_payload :: jsval
  wh_signature :: string

definition startDemoCheckout ::
    "runtime \<Rightarrow> 64 word \<Rightarrow> 64 word \<Rightarrow> string \<Rightarrow> string \<Rightarrow> string \<Rightarrow> string \<Rightarrow> db \<Rightarrow> checkout res" where
  "startDemoCheckout rt rpay rwhk now schoolId orderId outcome s =
     (case assertSchoolActive schoolId s of
        Inl e \<Rightarrow> (Inl e, s)
      | Inr _ \<Rightarrow>
          (case map_of (orders s) orderId of
             None \<Rightarrow> (Inl ''ORDER_NOT_FOUND'', s)
           | Some order \<Rightarrow>
               if o_schoolId order \<noteq> schoolId then (Inl ''ORDER_ACCESS_DENIED'', s)
               else if o_status order \<noteq> PENDING then (Inl ''ORDER_NOT_PENDING'', s)
               else
                 (case map_of (gateway s) schoolId of
                    None \<Rightarrow> (Inl ''GATEWAY_NOT_CONFIGURED'', s)
                  | Some g \<Rightarrow>
                      if gw_provider g \<noteq> ''DEMO'' then (Inl ''GATEWAY_NOT_CONFIGURED'', s)
                      else
                        let oc = toUpperCase (trim outcome) in
                        if oc \<noteq> ''APPROVED'' \<and> oc \<noteq> ''DECLINED''
                        then (Inl ''CHECKOUT_OUTCOME_INVALID'', s)
                        else
                          let payment = \<lparr> p_id = generateId ''pay'' rpay, p_schoolId = schoolId,
                                           p_orderId = orderId, p_provider = ''DEMO'',
                                           p_status = INITIATED, p_createdAt = now,
                                           p_updatedAt = now \<rparr>;
                              eventId = generateId ''whk'' rwhk;
                              payload = JObj [(''provider'', JStr ''DEMO''),
                                              (''eventId'', JStr eventId),
                                              (''schoolId'', JStr schoolId),
                                              (''orderId'', JStr orderId),
                                              (''paymentId'', JStr (p_id payment)),
                                              (''result'', JStr oc),
                                              (''ts'', JStr now)];
                              signature = hmacSha256 rt (gw_webhookSecret g)
                                            (stableStringify payload)
                          in (Inr \<lparr> checkoutUrl =
                                      demoCheckoutBaseUrl @ ''/checkout?orderId=''
                                        @ encodeURIComponent orderId @ ''&result=''
                                        @ encodeURIComponent oc,
                                    wh_payload = payload, wh_signature = signature \<rparr>,
                              s\<lparr>payments :=
                                   AList.update (p_id payment) payment (payments s)\<rparr>))))"

definition enrollmentKey :: "string \<Rightarrow> string \<Rightarrow> string \<Rightarrow> string" where
  "enrollmentKey schoolId buyerEmail courseId =
     schoolId @ '':'' @ buyerEmail @ '':'' @ courseId"

definition ensureEnrollment ::
    "64 word \<Rightarrow> string \<Rightarrow> string \<Rightarrow> string \<Rightarrow> string \<Rightarrow> string \<Rightarrow> db \<Rightarrow> enrollment option \<times> db" where
  "ensureEnrollment renr now schoolId buyerEmail courseId orderId s =
     (let key = enrollmentKey schoolId buyerEmail courseId;
          enrollment = \<lparr> en_id = generateId ''enr'' renr, en_schoolId = schoolId,
                          en_buyerEmail = buyerEmail, en_courseId = courseId,
                          en_orderId = orderId, en_createdAt = now \<rparr>;
          created =
            (Some enrollment,
             s\<lparr>enrollments := AList.update (en_id enrollment) enrollment (enrollments s),
               bySchoolBuyerCourse :=
                 AList.update key (en_id enrollment) (bySchoolBuyerCourse s)\<rparr>)
      in (case map_of (bySchoolBuyerCourse s) key of
            None \<Rightarrow> created
          | Some existingId \<Rightarrow>
              if existingId = [] then created
              else (map_of (enrollments s) existingId, s)))"

definition canAccessCourse :: "string \<Rightarrow> string \<Rightarrow> string \<Rightarrow> db \<Rightarrow> bool" where
  "canAccessCourse schoolId buyerEmail courseId s \<longleftrightarrow>
     map_of (bySchoolBuyerCourse s)
       (enrollmentKey schoolId (toLowerCase (trim buyerEmail)) courseId) \<noteq> None"

text \<open>\<^verbatim>\<open>String(provider || payload?.provider || "").trim().toUpperCase()\<close>.\<close>

definition webhookProvider :: "jsval \<Rightarrow> jsval \<Rightarrow> string" where
  "webhookProvider provider payload =
     toUpperCase (trim (str_or_empty
       (if truthy provider then provider else field payload ''provider'')))"

text \<open>\<^verbatim>\<open>String(payload?.name || "").trim()\<close>.\<close>

definition payloadField :: "jsval \<Rightarrow> string \<Rightarrow> string" where
  "payloadField payload name = trim (str_or_empty (field payload name))"

text \<open>
  The effects of a first delivery that has passed every check: the block of
  \<^verbatim>\<open>receiveWebhook\<close> from its comment \<^verbatim>\<open>aplica efeito (1 vez)\<close> to its \<^verbatim>\<open>return\<close>.
\<close>

definition applyWebhook ::
    "64 word \<Rightarrow> string \<Rightarrow> string \<Rightarrow> string \<Rightarrow> string \<Rightarrow> string \<Rightarrow> string \<Rightarrow> string \<Rightarrow>
     jsval \<Rightarrow> jsval \<Rightarrow> order \<Rightarrow> payment \<Rightarrow> db \<Rightarrow> snapshot \<times> db" where
  "applyWebhook renr now prov eventId schoolId orderId paymentId result payload signature
       order payment s =
     (let order' =
            (if result = ''APPROVED''
             then order\<lparr>o_status := PAID, o_paidAt := Some now, o_updatedAt := now\<rparr>
             else order\<lparr>o_status := FAILED, o_updatedAt := now\<rparr>);
          payment' =
            (if result = ''APPROVED''
             then payment\<lparr>p_status := SUCCEEDED, p_updatedAt := now\<rparr>
             else payment\<lparr>p_status := PAYMENT_FAILED, p_updatedAt := now\<rparr>);
          s1 = s\<lparr>orders := AList.update orderId order' (orders s),
                 payments := AList.update paymentId payment' (payments s)\<rparr>;
          s2 = (if result = ''APPROVED''
                then snd (ensureEnrollment renr now schoolId (o_buyerEmail order')
                            (o_courseId order') (o_id order') s1)
                else s1);
          snapshot =
            \<lparr> snap_ok = True, snap_provider = prov, snap_eventId = eventId,
              snap_schoolId = schoolId, snap_orderId = orderId, snap_paymentId = paymentId,
              snap_orderStatus = o_status order' \<rparr>;
          evt =
            \<lparr> we_id = eventId, we_provider = prov, we_schoolId = schoolId,
              we_orderId = orderId, we_paymentId = paymentId, we_receivedAt = now,
              we_payload = stableStringify payload, we_signature = str_or_empty signature,
              we_resultSnapshot = snapshot \<rparr>
      in (snapshot, s2\<lparr>webhookEvents := AList.update eventId evt (webhookEvents s2)\<rparr>))"

definition receiveWebhook ::
    "runtime \<Rightarrow> 64 word \<Rightarrow> string \<Rightarrow> jsval \<Rightarrow> jsval \<Rightarrow> jsval \<Rightarrow> db \<Rightarrow> snapshot res" where
  "receiveWebhook rt renr now provider payload signature s =
     (let prov = webhookProvider provider payload in
      if prov \<noteq> ''DEMO'' then (Inl ''WEBHOOK_PROVIDER_UNSUPPORTED'', s)
      else
        let eventId = payloadField payload ''eventId'' in
        if eventId = [] then (Inl ''WEBHOOK_EVENT_ID_REQUIRED'', s)
        else
          (case map_of (webhookEvents s) eventId of
             Some existing \<Rightarrow> (Inr (we_resultSnapshot existing), s)
           | None \<Rightarrow>
               let schoolId = payloadField payload ''schoolId'';
                   orderId = payloadField payload ''orderId'';
                   paymentId = payloadField payload ''paymentId'';
                   result = toUpperCase (payloadField payload ''result'')
               in
               if schoolId = [] \<or> orderId = [] \<or> paymentId = []
               then (Inl ''WEBHOOK_PAYLOAD_INVALID'', s)
               else if result \<noteq> ''APPROVED'' \<and> result \<noteq> ''DECLINED''
               then (Inl ''WEBHOOK_RESULT_INVALID'', s)
               else
                 (case map_of (gateway s) schoolId of
                    None \<Rightarrow> (Inl ''GATEWAY_NOT_CONFIGURED'', s)
                  | Some g \<Rightarrow>
                      let expected = hmacSha256 rt (gw_webhookSecret g) (stableStringify payload) in
                      if trim (str_or_empty signature) \<noteq> expected
                      then (Inl ''WEBHOOK_SIGNATURE_INVALID'', s)
                      else
                        (case map_of (orders s) orderId of
                           None \<Rightarrow> (Inl ''ORDER_NOT_FOUND'', s)
                         | Some order \<Rightarrow>
                             if o_schoolId order \<noteq> schoolId then (Inl ''ORDER_ACCESS_DENIED'', s)
                             else
                               (case map_of (payments s) paymentId of
                                  None \<Rightarrow> (Inl ''PAYMENT_NOT_FOUND'', s)
                                | Some payment \<Rightarrow>
                                    if p_schoolId payment \<noteq> schoolId
                                    then (Inl ''PAYMENT_ACCESS_DENIED'', s)
                                    else if p_orderId payment \<noteq> orderId
                                    then (Inl ''PAYMENT_ORDER_MISMATCH'', s)
                                    else
                                      (case applyWebhook renr now prov eventId schoolId orderId
                                              paymentId result payload signature order payment s of
                                         (snapshot, s') \<Rightarrow> (Inr snapshot, s')))))))"

section \<open>The store as a transition system\<close>

text \<open>
  One constructor for each exported operation that writes the store, with the random
  bits and clock readings it draws followed by its arguments.  \<^verbatim>\<open>updateBranding\<close>
  writes only the parts left out and is not a transition of the model, and
  \<^verbatim>\<open>__resetForTests\<close> returns to \<open>init_db\<close>.
\<close>

datatype call =
    CreateSchool "64 word" "64 word" "128 word" string string string
  | SetSchoolStatus string string string
  | RequestCustomDomain "96 word" "64 word" string string string
  | VerifyCustomDomain string string string string
  | UpdateLocalization string string localizationPatch
  | RotateWebhookSecret "128 word" string string
  | CreateCourseAI "64 word" string string string string "rat option" string "promo_in option"
  | CreateCourseImport "64 word" string string string string "rat option" string "promo_in option"
  | AiGenerateStructure string string string aiInputs_in
  | EditCourseStructure string string string "module list"
  | ApproveCourseStructure string string string
  | AiGenerateFullCourse string string string
  | SetImportStructure string string string "module list"
  | PublishCourse string string string
  | CreateOrder "64 word" int string string string string
  | StartDemoCheckout "64 word" "64 word" string string string string
  | ReceiveWebhook "64 word" string jsval jsval jsval

fun exec :: "runtime \<Rightarrow> call \<Rightarrow> db \<Rightarrow> db" where
  "exec rt (CreateSchool rid rdom rsecret now name slug) s =
     snd (createSchool rid rdom rsecret now name slug s)"
| "exec rt (SetSchoolStatus now schoolId status) s = snd (setSchoolStatus now schoolId status s)"
| "exec rt (RequestCustomDomain rtoken rid now schoolId domain) s =
     snd (requestCustomDomain rtoken rid now schoolId domain s)"
| "exec rt (VerifyCustomDomain now schoolId domain token) s =
     snd (verifyCustomDomain now schoolId domain token s)"
| "exec rt (UpdateLocalization now schoolId patch) s = snd (updateLocalization now schoolId patch s)"
| "exec rt (RotateWebhookSecret rsecret now schoolId) s =
     snd (rotateWebhookSecret rsecret now schoolId s)"
| "exec rt (CreateCourseAI rid now schoolId title description p cur pr) s =
     snd (createCourseAI rid now schoolId title description p cur pr s)"
| "exec rt (CreateCourseImport rid now schoolId title description p cur pr) s =
     snd (createCourseImport rid now schoolId title description p cur pr s)"
| "exec rt (AiGenerateStructure now schoolId courseId inputs) s =
     snd (aiGenerateStructure now schoolId courseId inputs s)"
| "exec rt (EditCourseStructure now schoolId courseId structure) s =
     snd (editCourseStructure now schoolId courseId structure s)"
| "exec rt (ApproveCourseStructure now schoolId courseId) s =
     snd (approveCourseStructure now schoolId courseId s)"
| "exec rt (AiGenerateFullCourse now schoolId courseId) s =
     snd (aiGenerateFullCourse now schoolId courseId s)"
| "exec rt (SetImportStructure now schoolId courseId structure) s =
     snd (setImportStructure now schoolId courseId structure s)"
| "exec rt (PublishCourse now schoolId courseId) s = snd (publishCourse now schoolId courseId s)"
| "exec rt (CreateOrder rid nowMs now schoolId courseId buyerEmail) s =
     snd (createOrder rt rid nowMs now schoolId courseId buyerEmail s)"
| "exec rt (StartDemoCheckout rpay rwhk now schoolId orderId outcome) s =
     snd (startDemoCheckout rt rpay rwhk now schoolId orderId outcome s)"
| "exec rt (ReceiveWebhook renr now provider payload signature) s =
     snd (receiveWebhook rt renr now provider payload signature s)"

text \<open>
  The identifiers an operation generates are new: a collision of two draws of
  \<^verbatim>\<open>crypto.randomBytes(8)\<close> is left out of the transition system.
\<close>

fun fresh :: "call \<Rightarrow> db \<Rightarrow> bool" where
  "fresh (CreateSchool rid rdom rsecret now name slug) s \<longleftrightarrow>
     map_of (schools s) (generateId ''sch'' rid) = None \<and>
     map_of (domains s) (generateId ''dom'' rdom) = None"
| "fresh (RequestCustomDomain rtoken rid now schoolId domain) s \<longleftrightarrow>
     map_of (domains s) (generateId ''dom'' rid) = None"
| "fresh (CreateCourseAI rid now schoolId title description p cur pr) s \<longleftrightarrow>
     map_of (courses s) (generateId ''crs'' rid) = None"
| "fresh (CreateCourseImport rid now schoolId title description p cur pr) s \<longleftrightarrow>
     map_of (courses s) (generateId ''crs'' rid) = None"
| "fresh (CreateOrder rid nowMs now schoolId courseId buyerEmail) s \<longleftrightarrow>
     map_of (orders s) (generateId ''ord'' rid) = None"
| "fresh (StartDemoCheckout rpay rwhk now schoolId orderId outcome) s \<longleftrightarrow>
     map_of (payments s) (generateId ''pay'' rpay) = None"
| "fresh (ReceiveWebhook renr now provider payload signature) s \<longleftrightarrow>
     map_of (enrollments s) (generateId ''enr'' renr) = None"
| "fresh _ s \<longleftrightarrow> True"

inductive reachable :: "runtime \<Rightarrow> db \<Rightarrow> bool" for rt :: runtime where
  init: "reachable rt init_db"
| step: "reachable rt s \<Longrightarrow> fresh c s \<Longrightarrow> reachable rt (exec rt c s)"

section \<open>Invariants of the store\<close>

text \<open>
  The keys of schools, orders and recorded webhook events are identifiers that trimming
  leaves unchanged; every domain record has an identifier; custom domains are never
  under the platform's base domain, and subdomain hosts always are.
\<close>

definition inv_schools :: "db \<Rightarrow> bool" where
  "inv_schools s \<longleftrightarrow> (\<forall>kv \<in> set (schools s). clean_id (fst kv))"

definition inv_orders :: "db \<Rightarrow> bool" where
  "inv_orders s \<longleftrightarrow> (\<forall>kv \<in> set (orders s). clean_id (fst kv))"

definition inv_events :: "db \<Rightarrow> bool" where
  "inv_events s \<longleftrightarrow> (\<forall>kv \<in> set (webhookEvents s). clean_id (fst kv))"

definition inv_domains :: "db \<Rightarrow> bool" where
  "inv_domains s \<longleftrightarrow> (\<forall>kv \<in> set (domains s). dc_id (snd kv) \<noteq> [])"

definition inv_custom :: "db \<Rightarrow> bool" where
  "inv_custom s \<longleftrightarrow>
     (\<forall>kv \<in> set (byCustomDomain s). \<not> endsWith (fst kv) (''.'' @ baseDomain) \<and> snd kv \<noteq> [])"

definition inv_sub :: "db \<Rightarrow> bool" where
  "inv_sub s \<longleftrightarrow> (\<forall>kv \<in> set (bySubdomain s). endsWith (fst kv) (''.'' @ baseDomain))"

definition store_inv :: "db \<Rightarrow> bool" where
  "store_inv s \<longleftrightarrow>
     inv_schools s \<and> inv_orders s \<and> inv_events s \<and> inv_domains s \<and> inv_custom s \<and>
     inv_sub s"

section \<open>A runtime for running the model on concrete inputs\<close>

text \<open>
  Stand-ins for the two runtime functions, used only where a statement is evaluated on
  concrete data: a digest that depends on the length of the key and on every character
  of the message, and a date parser that knows the one date string the scenario uses,
  with the time value that \<^verbatim>\<open>new Date("2030-01-01T00:00:00.000Z").getTime()\<close> has.
\<close>

definition test_digest :: "string \<Rightarrow> string \<Rightarrow> 256 word" where
  "test_digest secret message =
     word_of_int (65536 * int (length secret) + sum_list (map of_char message))"

definition test_dateParse :: "string \<Rightarrow> int option" where
  "test_dateParse u =
     (if u = ''2030-01-01T00:00:00.000Z'' then Some 1893456000000 else None)"

definition test_runtime :: runtime where
  "test_runtime = \<lparr> hmac_digest = test_digest, dateParse = test_dateParse \<rparr>"

section \<open>The order of the course states\<close>

text \<open>
  The position of a state in the list of the source's comment (\<^verbatim>\<open>DRAFT\<close>,
  \<^verbatim>\<open>DRAFTING_STRUCTURE\<close>, \<^verbatim>\<open>STRUCTURE_APPROVED\<close>, \<^verbatim>\<open>GENERATING_FULL\<close>,
  \<^verbatim>\<open>DRAFT_READY\<close>, \<^verbatim>\<open>PUBLISHED\<close>).
\<close>

fun state_rank :: "course_state \<Rightarrow> nat" where
  "state_rank DRAFT = 0"
| "state_rank DRAFTING_STRUCTURE = 1"
| "state_rank STRUCTURE_APPROVED = 2"
| "state_rank GENERATING_FULL = 3"
| "state_rank DRAFT_READY = 4"
| "state_rank PUBLISHED = 5"

section \<open>A worked scenario\<close>

text \<open>
  Two schools; the second requests a custom domain and leaves it unverified, the first
  requests and verifies one, publishes an import course at 199.90 with 20 percent off
  until 2030,
  and sells it: one order, two checkouts started while the order is pending, the school
  then both webhooks delivered (\<open>demo12\<close>, \<open>demo13\<close>).  In a second line the school is
  suspended after the checkouts (\<open>demo14\<close>) and the first webhook delivered then
  (\<open>demo15\<close>).  The stores \<open>demo1\<close> to \<open>demo15\<close> are written out; that each is what
  its call produces from the store before is proved below.
\<close>

definition alpha_id :: string where "alpha_id = ''sch_0000000000000001''"
definition beta_id :: string where "beta_id = ''sch_0000000000000004''"
definition course_id :: string where "course_id = ''crs_000000000000000d''"
definition order_id :: string where "order_id = ''ord_000000000000000e''"
definition pay1_id :: string where "pay1_id = ''pay_000000000000000f''"
definition pay2_id :: string where "pay2_id = ''pay_0000000000000011''"
definition event1_id :: string where "event1_id = ''whk_0000000000000010''"
definition event2_id :: string where "event2_id = ''whk_0000000000000012''"

definition demo_structure :: "module list" where
  "demo_structure =
     [\<lparr> m_title = ''M1'', m_objectives = [],
        m_lessons = [\<lparr> l_title = ''L1'', l_externalUrl = ''https://example.com/l1'' \<rparr>] \<rparr>]"

definition demo_payload1 :: jsval where
  "demo_payload1 =
     JObj [(''provider'', JStr ''DEMO''), (''eventId'', JStr event1_id),
           (''schoolId'', JStr alpha_id), (''orderId'', JStr order_id),
           (''paymentId'', JStr pay1_id), (''result'', JStr ''APPROVED''),
           (''ts'', JStr ''t10'')]"

definition demo_signature1 :: string where
  "demo_signature1 = ''0000000000000000000000000000000000000000000000000000000000203212''"

definition demo_payload2 :: jsval where
  "demo_payload2 =
     JObj [(''provider'', JStr ''DEMO''), (''eventId'', JStr event2_id),
           (''schoolId'', JStr alpha_id), (''orderId'', JStr order_id),
           (''paymentId'', JStr pay2_id), (''result'', JStr ''DECLINED''),
           (''ts'', JStr ''t11'')]"

definition demo_signature2 :: string where
  "demo_signature2 = ''00000000000000000000000000000000000000000000000000000000002031b8''"

definition demo_call :: "nat \<Rightarrow> call" where
  "demo_call k =
     [CreateSchool 1 2 3 ''t01'' ''Escola Alpha'' ''alpha'',
      CreateSchool 4 5 6 ''t02'' ''Escola Beta'' ''beta'',
      RequestCustomDomain 7 8 ''t03'' beta_id ''shop.example.com'',
      RequestCustomDomain 9 10 ''t04'' alpha_id ''Cursos.Alpha.com.br'',
      VerifyCustomDomain ''t05'' alpha_id ''cursos.alpha.com.br'' ''000000000000000000000009'',
      CreateCourseImport 13 ''t06'' alpha_id ''Curso'' ''Um curso'' (Some (fl (1999 / 10))) []
        (Some \<lparr> pi_type = ''percent'', pi_value = Some 20, pi_untilIso = ''2030-01-01T00:00:00.000Z'' \<rparr>),
      SetImportStructure ''t07'' alpha_id course_id demo_structure,
      PublishCourse ''t08'' alpha_id course_id,
      CreateOrder 14 1767225600000 ''t09'' alpha_id course_id '' A@b.com '',
      StartDemoCheckout 15 16 ''t10'' alpha_id order_id ''approved'',
      StartDemoCheckout 17 18 ''t11'' alpha_id order_id ''DECLINED'',
      ReceiveWebhook 19 ''t12'' (JStr ''DEMO'') demo_payload1 (JStr demo_signature1),
      ReceiveWebhook 20 ''t13'' (JStr ''DEMO'') demo_payload2 (JStr demo_signature2),
      SetSchoolStatus ''t14'' alpha_id ''SUSPENDED'',
      ReceiveWebhook 21 ''t15'' (JStr ''DEMO'') demo_payload1 (JStr demo_signature1)]
     ! (k - 1)"

definition demo_school :: "string \<Rightarrow> string \<Rightarrow> string \<Rightarrow> string \<Rightarrow> school" where
  "demo_school i n sl t =
     \<lparr> sc_id = i, sc_name = n, sc_slug = sl, sc_status = ACTIVE, sc_createdAt = t,
       sc_updatedAt = t \<rparr>"

definition demo_subdomain :: "string \<Rightarrow> string \<Rightarrow> string \<Rightarrow> string \<Rightarrow> domainConfig" where
  "demo_subdomain i sid host t =
     \<lparr> dc_id = i, dc_schoolId = sid, dc_type = Subdomain, dc_domain = host,
       dc_verified = True, dc_verificationToken = None, dc_createdAt = t,
       dc_verifiedAt = Some t \<rparr>"

definition demo_custom :: "string \<Rightarrow> string \<Rightarrow> string \<Rightarrow> string \<Rightarrow> string \<Rightarrow> domainConfig" where
  "demo_custom i sid d tok t =
     \<lparr> dc_id = i, dc_schoolId = sid, dc_type = Custom, dc_domain = d, dc_verified = False,
       dc_verificationToken = Some tok, dc_createdAt = t, dc_verifiedAt = None \<rparr>"

definition demo_localization :: "string \<Rightarrow> string \<Rightarrow> localization" where
  "demo_localization sid t =
     \<lparr> lo_schoolId = sid, lo_defaultLanguage = ''pt-BR'', lo_defaultCurrency = ''BRL'',
       lo_timezone = ''America/Sao_Paulo'', lo_updatedAt = t \<rparr>"

definition demo_gateway :: "string \<Rightarrow> string \<Rightarrow> string \<Rightarrow> gatewayConfig" where
  "demo_gateway sid secret t =
     \<lparr> gw_schoolId = sid, gw_provider = ''DEMO'', gw_mode = ''demo'',
       gw_webhookSecret = secret, gw_updatedAt = t \<rparr>"

definition demo_course :: course where
  "demo_course =
     \<lparr> c_id = course_id, c_schoolId = alpha_id, c_type = IMPORT, c_title = ''Curso'',
       c_description = ''Um curso'',
       c_pricing = \<lparr> price = fl (1999 / 10), currency = ''BRL'',
                     promo = Some \<lparr> pr_type = PERCENT, pr_value = 20, pr_untilIso = ''2030-01-01T00:00:00.000Z'' \<rparr> \<rparr>,
       c_aiInputs = None, c_structure = None, c_fullContent = None, c_state = DRAFT,
       c_createdAt = ''t06'', c_updatedAt = ''t06'', c_publishedAt = None \<rparr>"

definition demo_order :: order where
  "demo_order =
     \<lparr> o_id = order_id, o_schoolId = alpha_id, o_courseId = course_id,
       o_buyerEmail = ''a@b.com'', o_amount = fl (15992 / 100), o_currency = ''BRL'',
       o_status = PENDING, o_createdAt = ''t09'', o_updatedAt = ''t09'', o_paidAt = None \<rparr>"

definition demo_payment :: "string \<Rightarrow> string \<Rightarrow> payment" where
  "demo_payment i t =
     \<lparr> p_id = i, p_schoolId = alpha_id, p_orderId = order_id, p_provider = ''DEMO'',
       p_status = INITIATED, p_createdAt = t, p_updatedAt = t \<rparr>"

definition demo_snapshot :: "string \<Rightarrow> string \<Rightarrow> order_status \<Rightarrow> snapshot" where
  "demo_snapshot e p st =
     \<lparr> snap_ok = True, snap_provider = ''DEMO'', snap_eventId = e, snap_schoolId = alpha_id,
       snap_orderId = order_id, snap_paymentId = p, snap_orderStatus = st \<rparr>"

definition demo_event ::
    "string \<Rightarrow> string \<Rightarrow> string \<Rightarrow> jsval \<Rightarrow> string \<Rightarrow> order_status \<Rightarrow> webhookEvent" where
  "demo_event e p t payload signature st =
     \<lparr> we_id = e, we_provider = ''DEMO'', we_schoolId = alpha_id, we_orderId = order_id,
       we_paymentId = p, we_receivedAt = t, we_payload = stableStringify payload,
       we_signature = signature, we_resultSnapshot = demo_snapshot e p st \<rparr>"

definition demo1 :: db where
  "demo1 = init_db
     \<lparr> schools := [(alpha_id, demo_school alpha_id ''Escola Alpha'' ''alpha'' ''t01'')],
       domains := [(''dom_0000000000000002'',
                    demo_subdomain ''dom_0000000000000002'' alpha_id ''alpha.platform.local'' ''t01'')],
       localizations := [(alpha_id, demo_localization alpha_id ''t01'')],
       gateway := [(alpha_id, demo_gateway alpha_id ''00000000000000000000000000000003'' ''t01'')],
       bySubdomain := [(''alpha.platform.local'', alpha_id)] \<rparr>"

definition demo2 :: db where
  "demo2 = demo1
     \<lparr> schools := schools demo1 @ [(beta_id, demo_school beta_id ''Escola Beta'' ''beta'' ''t02'')],
       domains := domains demo1 @
         [(''dom_0000000000000005'',
           demo_subdomain ''dom_0000000000000005'' beta_id ''beta.platform.local'' ''t02'')],
       localizations := localizations demo1 @ [(beta_id, demo_localization beta_id ''t02'')],
       gateway := gateway demo1 @
         [(beta_id, demo_gateway beta_id ''00000000000000000000000000000006'' ''t02'')],
       bySubdomain := bySubdomain demo1 @ [(''beta.platform.local'', beta_id)] \<rparr>"

definition demo3 :: db where
  "demo3 = demo2
     \<lparr> domains := domains demo2 @
         [(''dom_0000000000000008'',
           demo_custom ''dom_0000000000000008'' beta_id ''shop.example.com''
             ''000000000000000000000007'' ''t03'')],
       byCustomDomain := [(''shop.example.com'', ''dom_0000000000000008'')] \<rparr>"

definition demo4 :: db where
  "demo4 = demo3
     \<lparr> domains := domains demo3 @
         [(''dom_000000000000000a'',
           demo_custom ''dom_000000000000000a'' alpha_id ''cursos.alpha.com.br''
             ''000000000000000000000009'' ''t04'')],
       byCustomDomain := byCustomDomain demo3 @
         [(''cursos.alpha.com.br'', ''dom_000000000000000a'')] \<rparr>"

definition demo5 :: db where
  "demo5 = demo4
     \<lparr> domains := domains demo3 @
         [(''dom_000000000000000a'',
           (demo_custom ''dom_000000000000000a'' alpha_id ''cursos.alpha.com.br''
              ''000000000000000000000009'' ''t04'')
           \<lparr> dc_verified := True, dc_verifiedAt := Some ''t05'' \<rparr>)] \<rparr>"

definition demo6 :: db where
  "demo6 = demo5 \<lparr> courses := [(course_id, demo_course)] \<rparr>"

definition demo7 :: db where
  "demo7 = demo6
     \<lparr> courses := [(course_id,
         demo_course \<lparr> c_structure := Some demo_structure, c_state := DRAFT_READY,
                       c_updatedAt := ''t07'' \<rparr>)] \<rparr>"

definition demo8 :: db where
  "demo8 = demo7
     \<lparr> courses := [(course_id,
         demo_course \<lparr> c_structure := Some demo_structure, c_state := PUBLISHED,
                       c_updatedAt := ''t08'', c_publishedAt := Some ''t08'' \<rparr>)] \<rparr>"

definition demo9 :: db where
  "demo9 = demo8 \<lparr> orders := [(order_id, demo_order)] \<rparr>"

definition demo10 :: db where
  "demo10 = demo9 \<lparr> payments := [(pay1_id, demo_payment pay1_id ''t10'')] \<rparr>"

definition demo11 :: db where
  "demo11 = demo10 \<lparr> payments := payments demo10 @ [(pay2_id, demo_payment pay2_id ''t11'')] \<rparr>"

text \<open>The store \<open>s\<close> after the first webhook is delivered at time \<open>t\<close>.\<close>

definition demo_paid :: "string \<Rightarrow> string \<Rightarrow> db \<Rightarrow> db" where
  "demo_paid enr t s = s
     \<lparr> orders := [(order_id, demo_order \<lparr> o_status := PAID, o_updatedAt := t,
                                           o_paidAt := Some t \<rparr>)],
       payments := [(pay1_id, (demo_payment pay1_id ''t10'')
                                \<lparr> p_status := SUCCEEDED, p_updatedAt := t \<rparr>),
                    (pay2_id, demo_payment pay2_id ''t11'')],
       webhookEvents :=
         [(event1_id, demo_event event1_id pay1_id t demo_payload1 demo_signature1 PAID)],
       enrollments :=
         [(enr, \<lparr> en_id = enr, en_schoolId = alpha_id, en_buyerEmail = ''a@b.com'',
                  en_courseId = course_id, en_orderId = order_id, en_createdAt = t \<rparr>)],
       bySchoolBuyerCourse := [(enrollmentKey alpha_id ''a@b.com'' course_id, enr)] \<rparr>"

definition demo12 :: db where
  "demo12 = demo_paid ''enr_0000000000000013'' ''t12'' demo11"

definition demo13 :: db where
  "demo13 = demo12
     \<lparr> orders := [(order_id, demo_order \<lparr> o_status := FAILED, o_updatedAt := ''t13'',
                                           o_paidAt := Some ''t12'' \<rparr>)],
       payments := [(pay1_id, (demo_payment pay1_id ''t10'')
                                \<lparr> p_status := SUCCEEDED, p_updatedAt := ''t12'' \<rparr>),
                    (pay2_id, (demo_payment pay2_id ''t11'')
                                \<lparr> p_status := PAYMENT_FAILED, p_updatedAt := ''t13'' \<rparr>)],
       webhookEvents := webhookEvents demo12 @
         [(event2_id, demo_event event2_id pay2_id ''t13'' demo_payload2 demo_signature2 FAILED)] \<rparr>"

definition demo14 :: db where
  "demo14 = demo11
     \<lparr> schools :=
         [(alpha_id, (demo_school alpha_id ''Escola Alpha'' ''alpha'' ''t01'')
                       \<lparr> sc_status := SUSPENDED, sc_updatedAt := ''t14'' \<rparr>),
          (beta_id, demo_school beta_id ''Escola Beta'' ''beta'' ''t02'')] \<rparr>"

definition demo15 :: db where
  "demo15 = demo_paid ''enr_0000000000000015'' ''t15'' demo14"

section \<open>Strings and identifiers\<close>

lemma dropWhile_rev_dropWhile:
  "dropWhile P (rev (dropWhile P (rev (dropWhile P s)))) = rev (dropWhile P (rev (dropWhile P s)))"
proof (cases "dropWhile P s")
  case Nil
  show ?thesis unfolding Nil by simp
next
  case (Cons a as)
  then have a: "\<not> P a" by (metis dropWhile_eq_Cons_conv)
  have ne: "dropWhile P (rev (a # as)) \<noteq> []"
    using a by (auto simp: dropWhile_append)
  have "\<exists>ys. dropWhile P (rev (a # as)) = ys @ [a]"
  proof (induction as rule: rev_induct)
    case Nil
    then show ?case using a by simp
  next
    case (snoc x xs)
    then show ?case by (auto simp: dropWhile_append)
  qed
  then obtain ys where ys: "dropWhile P (rev (a # as)) = ys @ [a]" by blast
  show ?thesis using Cons ys a by simp
qed

lemma trim_idem: "trim (trim s) = trim s"
proof -
  let ?t = "rev (dropWhile is_space (rev (dropWhile is_space s)))"
  have 1: "dropWhile is_space ?t = ?t" by (rule dropWhile_rev_dropWhile)
  have 2: "dropWhile is_space (rev ?t) = rev ?t"
    by (metis dropWhile_idem rev_rev_ident)
  show ?thesis unfolding trim_def using 1 2 by simp
qed

lemma trim_id:
  assumes "s \<noteq> []" "\<not> is_space (hd s)" "\<not> is_space (last s)"
  shows "trim s = s"
proof -
  have 1: "dropWhile is_space s = s" using assms by (cases s) auto
  have 2: "dropWhile is_space (rev s) = rev s"
    using assms by (cases "rev s") (auto simp: last_rev hd_rev dest: arg_cong[where f=hd])
  show ?thesis unfolding trim_def using 1 2 by simp
qed

lemma hex_digit_not_space: "\<not> is_space (hex_digit n)"
proof -
  have "nat (n mod 16) < 16" by simp
  then have "hex_digit n \<in> set ''0123456789abcdef''"
    unfolding hex_digit_def by (intro nth_mem) simp
  then show ?thesis by (auto simp: is_space_def)
qed

lemma hex_int_no_space: "c \<in> set (hex_int k x) \<Longrightarrow> \<not> is_space c"
  by (induction k arbitrary: x) (auto simp: hex_digit_not_space)

lemma to_hex_ends:
  assumes "4 \<le> LENGTH('a::len)"
  shows "to_hex (w :: 'a word) \<noteq> []"
    and "\<not> is_space (hd (to_hex w))"
    and "\<not> is_space (last (to_hex w))"
proof -
  from assms obtain k where k: "LENGTH('a) div 4 = Suc k"
    by (cases "LENGTH('a) div 4") (auto simp: div_eq_0_iff)
  show ne: "to_hex w \<noteq> []" by (simp add: to_hex_def k)
  show "\<not> is_space (hd (to_hex w))"
    using ne hex_int_no_space[of "hd (to_hex w)" "LENGTH('a) div 4" "uint w"]
    by (simp add: to_hex_def)
  show "\<not> is_space (last (to_hex w))"
    using ne hex_int_no_space[of "last (to_hex w)" "LENGTH('a) div 4" "uint w"]
    by (simp add: to_hex_def)
qed


lemma generateId_clean:
  assumes "p \<noteq> []" "\<not> is_space (hd p)"
  shows "clean_id (generateId p r)"
proof -
  have l: "to_hex r \<noteq> []" "\<not> is_space (last (to_hex r))"
    by (rule to_hex_ends; simp)+
  have "trim (generateId p r) = generateId p r"
    by (rule trim_id) (use assms l in \<open>auto simp: generateId_def\<close>)
  then show ?thesis using assms by (simp add: clean_id_def generateId_def)
qed

lemma trim_clean: "trim s \<noteq> [] \<Longrightarrow> clean_id (trim s)"
  by (simp add: clean_id_def trim_idem)

lemma hmacSha256_trim: "trim (hmacSha256 rt k m) = hmacSha256 rt k m"
  unfolding hmacSha256_def by (rule trim_id; rule to_hex_ends; simp)

lemma lower_char_at: "lower_char c = CHR ''@'' \<longleftrightarrow> c = CHR ''@''"
  by (auto simp: lower_char_def upper_chars_def lower_chars_def split: option.splits if_splits)

lemma at_toLowerCase: "CHR ''@'' \<in> set (toLowerCase s) \<longleftrightarrow> CHR ''@'' \<in> set s"
proof -
  have "CHR ''@'' \<in> set (toLowerCase s) \<longleftrightarrow> (\<exists>c \<in> set s. lower_char c = CHR ''@'')"
    unfolding toLowerCase_def set_map image_iff by metis
  then show ?thesis by (simp add: lower_char_at)
qed

section \<open>What each operation leaves untouched\<close>

lemma ensureDefaultSubdomainForSchool_frame [simp]:
  "schools (snd (ensureDefaultSubdomainForSchool rdom now schoolId s)) = schools s"
  "localizations (snd (ensureDefaultSubdomainForSchool rdom now schoolId s)) = localizations s"
  "gateway (snd (ensureDefaultSubdomainForSchool rdom now schoolId s)) = gateway s"
  "courses (snd (ensureDefaultSubdomainForSchool rdom now schoolId s)) = courses s"
  "orders (snd (ensureDefaultSubdomainForSchool rdom now schoolId s)) = orders s"
  "payments (snd (ensureDefaultSubdomainForSchool rdom now schoolId s)) = payments s"
  "webhookEvents (snd (ensureDefaultSubdomainForSchool rdom now schoolId s)) = webhookEvents s"
  "enrollments (snd (ensureDefaultSubdomainForSchool rdom now schoolId s)) = enrollments s"
  "byCustomDomain (snd (ensureDefaultSubdomainForSchool rdom now schoolId s)) = byCustomDomain s"
  "bySchoolBuyerCourse (snd (ensureDefaultSubdomainForSchool rdom now schoolId s)) = bySchoolBuyerCourse s"
  by (simp_all add: ensureDefaultSubdomainForSchool_def Let_def split: sum.splits option.splits prod.splits)

lemma createSchool_frame [simp]:
  "courses (snd (createSchool rid rdom rsecret now name slug s)) = courses s"
  "orders (snd (createSchool rid rdom rsecret now name slug s)) = orders s"
  "payments (snd (createSchool rid rdom rsecret now name slug s)) = payments s"
  "webhookEvents (snd (createSchool rid rdom rsecret now name slug s)) = webhookEvents s"
  "enrollments (snd (createSchool rid rdom rsecret now name slug s)) = enrollments s"
  "byCustomDomain (snd (createSchool rid rdom rsecret now name slug s)) = byCustomDomain s"
  "bySchoolBuyerCourse (snd (createSchool rid rdom rsecret now name slug s)) = bySchoolBuyerCourse s"
  by (simp_all add: createSchool_def ensureDefaultSubdomainForSchool_def Let_def split: sum.splits option.splits prod.splits)

lemma setSchoolStatus_frame [simp]:
  "domains (snd (setSchoolStatus now schoolId status s)) = domains s"
  "localizations (snd (setSchoolStatus now schoolId status s)) = localizations s"
  "gateway (snd (setSchoolStatus now schoolId status s)) = gateway s"
  "courses (snd (setSchoolStatus now schoolId status s)) = courses s"
  "orders (snd (setSchoolStatus now schoolId status s)) = orders s"
  "payments (snd (setSchoolStatus now schoolId status s)) = payments s"
  "webhookEvents (snd (setSchoolStatus now schoolId status s)) = webhookEvents s"
  "enrollments (snd (setSchoolStatus now schoolId status s)) = enrollments s"
  "byCustomDomain (snd (setSchoolStatus now schoolId status s)) = byCustomDomain s"
  "bySubdomain (snd (setSchoolStatus now schoolId status s)) = bySubdomain s"
  "bySchoolBuyerCourse (snd (setSchoolStatus now schoolId status s)) = bySchoolBuyerCourse s"
  by (simp_all add: setSchoolStatus_def Let_def split: sum.splits option.splits prod.splits)

lemma requestCustomDomain_frame [simp]:
  "schools (snd (requestCustomDomain rtoken rid now schoolId domain s)) = schools s"
  "localizations (snd (requestCustomDomain rtoken rid now schoolId domain s)) = localizations s"
  "gateway (snd (requestCustomDomain rtoken rid now schoolId domain s)) = gateway s"
  "courses (snd (requestCustomDomain rtoken rid now schoolId domain s)) = courses s"
  "orders (snd (requestCustomDomain rtoken rid now schoolId domain s)) = orders s"
  "payments (snd (requestCustomDomain rtoken rid now schoolId domain s)) = payments s"
  "webhookEvents (snd (requestCustomDomain rtoken rid now schoolId domain s)) = webhookEvents s"
  "enrollments (snd (requestCustomDomain rtoken rid now schoolId domain s)) = enrollments s"
  "bySubdomain (snd (requestCustomDomain rtoken rid now schoolId domain s)) = bySubdomain s"
  "bySchoolBuyerCourse (snd (requestCustomDomain rtoken rid now schoolId domain s)) = bySchoolBuyerCourse s"
  by (simp_all add: requestCustomDomain_def Let_def split: sum.splits option.splits prod.splits)

lemma verifyCustomDomain_frame [simp]:
  "schools (snd (verifyCustomDomain now schoolId domain token s)) = schools s"
  "localizations (snd (verifyCustomDomain now schoolId domain token s)) = localizations s"
  "gateway (snd (verifyCustomDomain now schoolId domain token s)) = gateway s"
  "courses (snd (verifyCustomDomain now schoolId domain token s)) = courses s"
  "orders (snd (verifyCustomDomain now schoolId domain token s)) = orders s"
  "payments (snd (verifyCustomDomain now schoolId domain token s)) = payments s"
  "webhookEvents (snd (verifyCustomDomain now schoolId domain token s)) = webhookEvents s"
  "enrollments (snd (verifyCustomDomain now schoolId domain token s)) = enrollments s"
  "byCustomDomain (snd (verifyCustomDomain now schoolId domain token s)) = byCustomDomain s"
  "bySubdomain (snd (verifyCustomDomain now schoolId domain token s)) = bySubdomain s"
  "bySchoolBuyerCourse (snd (verifyCustomDomain now schoolId domain token s)) = bySchoolBuyerCourse s"
  by (simp_all add: verifyCustomDomain_def Let_def split: sum.splits option.splits prod.splits)

lemma updateLocalization_frame [simp]:
  "schools (snd (updateLocalization now schoolId patch s)) = schools s"
  "domains (snd (updateLocalization now schoolId patch s)) = domains s"
  "gateway (snd (updateLocalization now schoolId patch s)) = gateway s"
  "courses (snd (updateLocalization now schoolId patch s)) = courses s"
  "orders (snd (updateLocalization now schoolId patch s)) = orders s"
  "payments (snd (updateLocalization now schoolId patch s)) = payments s"
  "webhookEvents (snd (updateLocalization now schoolId patch s)) = webhookEvents s"
  "enrollments (snd (updateLocalization now schoolId patch s)) = enrollments s"
  "byCustomDomain (snd (updateLocalization now schoolId patch s)) = byCustomDomain s"
  "bySubdomain (snd (updateLocalization now schoolId patch s)) = bySubdomain s"
  "bySchoolBuyerCourse (snd (updateLocalization now schoolId patch s)) = bySchoolBuyerCourse s"
  by (simp_all add: updateLocalization_def Let_def split: sum.splits option.splits prod.splits)

lemma rotateWebhookSecret_frame [simp]:
  "schools (snd (rotateWebhookSecret rsecret now schoolId s)) = schools s"
  "domains (snd (rotateWebhookSecret rsecret now schoolId s)) = domains s"
  "localizations (snd (rotateWebhookSecret rsecret now schoolId s)) = localizations s"
  "courses (snd (rotateWebhookSecret rsecret now schoolId s)) = courses s"
  "orders (snd (rotateWebhookSecret rsecret now schoolId s)) = orders s"
  "payments (snd (rotateWebhookSecret rsecret now schoolId s)) = payments s"
  "webhookEvents (snd (rotateWebhookSecret rsecret now schoolId s)) = webhookEvents s"
  "enrollments (snd (rotateWebhookSecret rsecret now schoolId s)) = enrollments s"
  "byCustomDomain (snd (rotateWebhookSecret rsecret now schoolId s)) = byCustomDomain s"
  "bySubdomain (snd (rotateWebhookSecret rsecret now schoolId s)) = bySubdomain s"
  "bySchoolBuyerCourse (snd (rotateWebhookSecret rsecret now schoolId s)) = bySchoolBuyerCourse s"
  by (simp_all add: rotateWebhookSecret_def Let_def split: sum.splits option.splits prod.splits)

lemma createCourse_frame [simp]:
  "schools (snd (createCourse type rid now schoolId title description p cur pr s)) = schools s"
  "domains (snd (createCourse type rid now schoolId title description p cur pr s)) = domains s"
  "localizations (snd (createCourse type rid now schoolId title description p cur pr s)) = localizations s"
  "gateway (snd (createCourse type rid now schoolId title description p cur pr s)) = gateway s"
  "orders (snd (createCourse type rid now schoolId title description p cur pr s)) = orders s"
  "payments (snd (createCourse type rid now schoolId title description p cur pr s)) = payments s"
  "webhookEvents (snd (createCourse type rid now schoolId title description p cur pr s)) = webhookEvents s"
  "enrollments (snd (createCourse type rid now schoolId title description p cur pr s)) = enrollments s"
  "byCustomDomain (snd (createCourse type rid now schoolId title description p cur pr s)) = byCustomDomain s"
  "bySubdomain (snd (createCourse type rid now schoolId title description p cur pr s)) = bySubdomain s"
  "bySchoolBuyerCourse (snd (createCourse type rid now schoolId title description p cur pr s)) = bySchoolBuyerCourse s"
  by (simp_all add: createCourse_def Let_def split: sum.splits option.splits prod.splits)

lemma aiGenerateStructure_frame [simp]:
  "schools (snd (aiGenerateStructure now schoolId courseId inputs s)) = schools s"
  "domains (snd (aiGenerateStructure now schoolId courseId inputs s)) = domains s"
  "localizations (snd (aiGenerateStructure now schoolId courseId inputs s)) = localizations s"
  "gateway (snd (aiGenerateStructure now schoolId courseId inputs s)) = gateway s"
  "orders (snd (aiGenerateStructure now schoolId courseId inputs s)) = orders s"
  "payments (snd (aiGenerateStructure now schoolId courseId inputs s)) = payments s"
  "webhookEvents (snd (aiGenerateStructure now schoolId courseId inputs s)) = webhookEvents s"
  "enrollments (snd (aiGenerateStructure now schoolId courseId inputs s)) = enrollments s"
  "byCustomDomain (snd (aiGenerateStructure now schoolId courseId inputs s)) = byCustomDomain s"
  "bySubdomain (snd (aiGenerateStructure now schoolId courseId inputs s)) = bySubdomain s"
  "bySchoolBuyerCourse (snd (aiGenerateStructure now schoolId courseId inputs s)) = bySchoolBuyerCourse s"
  by (simp_all add: aiGenerateStructure_def Let_def split: sum.splits option.splits prod.splits)

lemma editCourseStructure_frame [simp]:
  "schools (snd (editCourseStructure now schoolId courseId structure s)) = schools s"
  "domains (snd (editCourseStructure now schoolId courseId structure s)) = domains s"
  "localizations (snd (editCourseStructure now schoolId courseId structure s)) = localizations s"
  "gateway (snd (editCourseStructure now schoolId courseId structure s)) = gateway s"
  "orders (snd (editCourseStructure now schoolId courseId structure s)) = orders s"
  "payments (snd (editCourseStructure now schoolId courseId structure s)) = payments s"
  "webhookEvents (snd (editCourseStructure now schoolId courseId structure s)) = webhookEvents s"
  "enrollments (snd (editCourseStructure now schoolId courseId structure s)) = enrollments s"
  "byCustomDomain (snd (editCourseStructure now schoolId courseId structure s)) = byCustomDomain s"
  "bySubdomain (snd (editCourseStructure now schoolId courseId structure s)) = bySubdomain s"
  "bySchoolBuyerCourse (snd (editCourseStructure now schoolId courseId structure s)) = bySchoolBuyerCourse s"
  by (simp_all add: editCourseStructure_def Let_def split: sum.splits option.splits prod.splits)

lemma approveCourseStructure_frame [simp]:
  "schools (snd (approveCourseStructure now schoolId courseId s)) = schools s"
  "domains (snd (approveCourseStructure now schoolId courseId s)) = domains s"
  "localizations (snd (approveCourseStructure now schoolId courseId s)) = localizations s"
  "gateway (snd (approveCourseStructure now schoolId courseId s)) = gateway s"
  "orders (snd (approveCourseStructure now schoolId courseId s)) = orders s"
  "payments (snd (approveCourseStructure now schoolId courseId s)) = payments s"
  "webhookEvents (snd (approveCourseStructure now schoolId courseId s)) = webhookEvents s"
  "enrollments (snd (approveCourseStructure now schoolId courseId s)) = enrollments s"
  "byCustomDomain (snd (approveCourseStructure now schoolId courseId s)) = byCustomDomain s"
  "bySubdomain (snd (approveCourseStructure now schoolId courseId s)) = bySubdomain s"
  "bySchoolBuyerCourse (snd (approveCourseStructure now schoolId courseId s)) = bySchoolBuyerCourse s"
  by (simp_all add: approveCourseStructure_def Let_def split: sum.splits option.splits prod.splits)

lemma aiGenerateFullCourse_frame [simp]:
  "schools (snd (aiGenerateFullCourse now schoolId courseId s)) = schools s"
  "domains (snd (aiGenerateFullCourse now schoolId courseId s)) = domains s"
  "localizations (snd (aiGenerateFullCourse now schoolId courseId s)) = localizations s"
  "gateway (snd (aiGenerateFullCourse now schoolId courseId s)) = gateway s"
  "orders (snd (aiGenerateFullCourse now schoolId courseId s)) = orders s"
  "payments (snd (aiGenerateFullCourse now schoolId courseId s)) = payments s"
  "webhookEvents (snd (aiGenerateFullCourse now schoolId courseId s)) = webhookEvents s"
  "enrollments (snd (aiGenerateFullCourse now schoolId courseId s)) = enrollments s"
  "byCustomDomain (snd (aiGenerateFullCourse now schoolId courseId s)) = byCustomDomain s"
  "bySubdomain (snd (aiGenerateFullCourse now schoolId courseId s)) = bySubdomain s"
  "bySchoolBuyerCourse (snd (aiGenerateFullCourse now schoolId courseId s)) = bySchoolBuyerCourse s"
  by (simp_all add: aiGenerateFullCourse_def Let_def split: sum.splits option.splits prod.splits)

lemma setImportStructure_frame [simp]:
  "schools (snd (setImportStructure now schoolId courseId structure s)) = schools s"
  "domains (snd (setImportStructure now schoolId courseId structure s)) = domains s"
  "localizations (snd (setImportStructure now schoolId courseId structure s)) = localizations s"
  "gateway (snd (setImportStructure now schoolId courseId structure s)) = gateway s"
  "orders (snd (setImportStructure now schoolId courseId structure s)) = orders s"
  "payments (snd (setImportStructure now schoolId courseId structure s)) = payments s"
  "webhookEvents (snd (setImportStructure now schoolId courseId structure s)) = webhookEvents s"
  "enrollments (snd (setImportStructure now schoolId courseId structure s)) = enrollments s"
  "byCustomDomain (snd (setImportStructure now schoolId courseId structure s)) = byCustomDomain s"
  "bySubdomain (snd (setImportStructure now schoolId courseId structure s)) = bySubdomain s"
  "bySchoolBuyerCourse (snd (setImportStructure now schoolId courseId structure s)) = bySchoolBuyerCourse s"
  by (simp_all add: setImportStructure_def Let_def split: sum.splits option.splits prod.splits)

lemma publishCourse_frame [simp]:
  "schools (snd (publishCourse now schoolId courseId s)) = schools s"
  "domains (snd (publishCourse now schoolId courseId s)) = domains s"
  "localizations (snd (publishCourse now schoolId courseId s)) = localizations s"
  "gateway (snd (publishCourse now schoolId courseId s)) = gateway s"
  "orders (snd (publishCourse now schoolId courseId s)) = orders s"
  "payments (snd (publishCourse now schoolId courseId s)) = payments s"
  "webhookEvents (snd (publishCourse now schoolId courseId s)) = webhookEvents s"
  "enrollments (snd (publishCourse now schoolId courseId s)) = enrollments s"
  "byCustomDomain (snd (publishCourse now schoolId courseId s)) = byCustomDomain s"
  "bySubdomain (snd (publishCourse now schoolId courseId s)) = bySubdomain s"
  "bySchoolBuyerCourse (snd (publishCourse now schoolId courseId s)) = bySchoolBuyerCourse s"
  by (simp_all add: publishCourse_def Let_def split: sum.splits option.splits prod.splits)

lemma createOrder_frame [simp]:
  "schools (snd (createOrder rt rid nowMs now schoolId courseId buyerEmail s)) = schools s"
  "domains (snd (createOrder rt rid nowMs now schoolId courseId buyerEmail s)) = domains s"
  "localizations (snd (createOrder rt rid nowMs now schoolId courseId buyerEmail s)) = localizations s"
  "gateway (snd (createOrder rt rid nowMs now schoolId courseId buyerEmail s)) = gateway s"
  "courses (snd (createOrder rt rid nowMs now schoolId courseId buyerEmail s)) = courses s"
  "payments (snd (createOrder rt rid nowMs now schoolId courseId buyerEmail s)) = payments s"
  "webhookEvents (snd (createOrder rt rid nowMs now schoolId courseId buyerEmail s)) = webhookEvents s"
  "enrollments (snd (createOrder rt rid nowMs now schoolId courseId buyerEmail s)) = enrollments s"
  "byCustomDomain (snd (createOrder rt rid nowMs now schoolId courseId buyerEmail s)) = byCustomDomain s"
  "bySubdomain (snd (createOrder rt rid nowMs now schoolId courseId buyerEmail s)) = bySubdomain s"
  "bySchoolBuyerCourse (snd (createOrder rt rid nowMs now schoolId courseId buyerEmail s)) = bySchoolBuyerCourse s"
  by (simp_all add: createOrder_def courseForSchool_def Let_def split: sum.splits option.splits prod.splits)

lemma startDemoCheckout_frame [simp]:
  "schools (snd (startDemoCheckout rt rpay rwhk now schoolId orderId outcome s)) = schools s"
  "domains (snd (startDemoCheckout rt rpay rwhk now schoolId orderId outcome s)) = domains s"
  "localizations (snd (startDemoCheckout rt rpay rwhk now schoolId orderId outcome s)) = localizations s"
  "gateway (snd (startDemoCheckout rt rpay rwhk now schoolId orderId outcome s)) = gateway s"
  "courses (snd (startDemoCheckout rt rpay rwhk now schoolId orderId outcome s)) = courses s"
  "orders (snd (startDemoCheckout rt rpay rwhk now schoolId orderId outcome s)) = orders s"
  "webhookEvents (snd (startDemoCheckout rt rpay rwhk now schoolId orderId outcome s)) = webhookEvents s"
  "enrollments (snd (startDemoCheckout rt rpay rwhk now schoolId orderId outcome s)) = enrollments s"
  "byCustomDomain (snd (startDemoCheckout rt rpay rwhk now schoolId orderId outcome s)) = byCustomDomain s"
  "bySubdomain (snd (startDemoCheckout rt rpay rwhk now schoolId orderId outcome s)) = bySubdomain s"
  "bySchoolBuyerCourse (snd (startDemoCheckout rt rpay rwhk now schoolId orderId outcome s)) = bySchoolBuyerCourse s"
  by (simp_all add: startDemoCheckout_def Let_def split: sum.splits option.splits prod.splits)

lemma ensureEnrollment_frame [simp]:
  "schools (snd (ensureEnrollment renr now schoolId buyerEmail courseId orderId s)) = schools s"
  "domains (snd (ensureEnrollment renr now schoolId buyerEmail courseId orderId s)) = domains s"
  "localizations (snd (ensureEnrollment renr now schoolId buyerEmail courseId orderId s)) = localizations s"
  "gateway (snd (ensureEnrollment renr now schoolId buyerEmail courseId orderId s)) = gateway s"
  "courses (snd (ensureEnrollment renr now schoolId buyerEmail courseId orderId s)) = courses s"
  "orders (snd (ensureEnrollment renr now schoolId buyerEmail courseId orderId s)) = orders s"
  "payments (snd (ensureEnrollment renr now schoolId buyerEmail courseId orderId s)) = payments s"
  "webhookEvents (snd (ensureEnrollment renr now schoolId buyerEmail courseId orderId s)) = webhookEvents s"
  "byCustomDomain (snd (ensureEnrollment renr now schoolId buyerEmail courseId orderId s)) = byCustomDomain s"
  "bySubdomain (snd (ensureEnrollment renr now schoolId buyerEmail courseId orderId s)) = bySubdomain s"
  by (simp_all add: ensureEnrollment_def Let_def split: sum.splits option.splits prod.splits)

lemma applyWebhook_frame [simp]:
  "schools (snd (applyWebhook renr now prov eventId schoolId orderId paymentId result payload signature order payment s)) = schools s"
  "domains (snd (applyWebhook renr now prov eventId schoolId orderId paymentId result payload signature order payment s)) = domains s"
  "localizations (snd (applyWebhook renr now prov eventId schoolId orderId paymentId result payload signature order payment s)) = localizations s"
  "gateway (snd (applyWebhook renr now prov eventId schoolId orderId paymentId result payload signature order payment s)) = gateway s"
  "courses (snd (applyWebhook renr now prov eventId schoolId orderId paymentId result payload signature order payment s)) = courses s"
  "byCustomDomain (snd (applyWebhook renr now prov eventId schoolId orderId paymentId result payload signature order payment s)) = byCustomDomain s"
  "bySubdomain (snd (applyWebhook renr now prov eventId schoolId orderId paymentId result payload signature order payment s)) = bySubdomain s"
  by (simp_all add: applyWebhook_def Let_def)

text \<open>An operation that throws after its checks leaves the store as it was.\<close>

lemma receiveWebhook_cases:
  "receiveWebhook rt renr now provider payload signature s = (r, s') \<Longrightarrow>
     s' = s \<or>
     (\<exists>order payment.
        map_of (orders s) (payloadField payload ''orderId'') = Some order \<and>
        map_of (payments s) (payloadField payload ''paymentId'') = Some payment \<and>
        payloadField payload ''eventId'' \<noteq> [] \<and>
        map_of (webhookEvents s) (payloadField payload ''eventId'') = None \<and>
        (r, s') =
          (Inr (fst (applyWebhook renr now (webhookProvider provider payload)
             (payloadField payload ''eventId'') (payloadField payload ''schoolId'')
             (payloadField payload ''orderId'') (payloadField payload ''paymentId'')
             (toUpperCase (payloadField payload ''result'')) payload signature order payment s)),
           snd (applyWebhook renr now (webhookProvider provider payload)
             (payloadField payload ''eventId'') (payloadField payload ''schoolId'')
             (payloadField payload ''orderId'') (payloadField payload ''paymentId'')
             (toUpperCase (payloadField payload ''result'')) payload signature order payment s)))"
  by (simp add: receiveWebhook_def Let_def split: option.splits if_splits prod.splits)

lemma receiveWebhook_frame [simp]:
  "schools (snd (receiveWebhook rt renr now provider payload signature s)) = schools s"
  "domains (snd (receiveWebhook rt renr now provider payload signature s)) = domains s"
  "localizations (snd (receiveWebhook rt renr now provider payload signature s)) = localizations s"
  "gateway (snd (receiveWebhook rt renr now provider payload signature s)) = gateway s"
  "courses (snd (receiveWebhook rt renr now provider payload signature s)) = courses s"
  "byCustomDomain (snd (receiveWebhook rt renr now provider payload signature s)) = byCustomDomain s"
  "bySubdomain (snd (receiveWebhook rt renr now provider payload signature s)) = bySubdomain s"
  using receiveWebhook_cases[of rt renr now provider payload signature s
      "fst (receiveWebhook rt renr now provider payload signature s)"
      "snd (receiveWebhook rt renr now provider payload signature s)"]
  by auto

section \<open>The invariants hold in every reachable store\<close>

lemma set_update_cases:
  "x \<in> set (AList.update k v al) \<Longrightarrow> x = (k, v) \<or> x \<in> set al"
  by (induction al) (auto split: if_splits)

lemma set_update_first_cases:
  "x \<in> set (update_first P f al) \<Longrightarrow> x \<in> set al \<or> (\<exists>y. (fst x, y) \<in> set al \<and> P y \<and> snd x = f y)"
  by (induction al) (auto split: if_splits)

lemma map_fst_update_first [simp]: "map fst (update_first P f al) = map fst al"
  by (induction al) auto

lemma map_of_key: "map_of al k = Some v \<Longrightarrow> k \<in> fst ` set al"
  by (metis domI dom_map_of_conv_image_fst)

lemma find_snd_mem: "find P (map snd al) = Some v \<Longrightarrow> v \<in> snd ` set al \<and> P v"
  by (metis find_Some_iff nth_mem set_map)

lemma lower_char_id: "c \<notin> set upper_chars \<Longrightarrow> lower_char c = c"
proof -
  assume "c \<notin> set upper_chars"
  then have "map_of (zip upper_chars lower_chars) c = None"
    by (simp add: map_of_zip_is_None upper_chars_def lower_chars_def)
  then show ?thesis by (simp add: lower_char_def)
qed

lemma toLowerCase_id: "\<forall>c \<in> set s. c \<notin> set upper_chars \<Longrightarrow> toLowerCase s = s"
  by (simp add: toLowerCase_def lower_char_id map_idI)

lemma slug_char:
  "c \<in> set lower_chars \<or> c \<in> set digit_chars \<or> c = CHR ''-'' \<Longrightarrow>
     \<not> is_space c \<and> c \<notin> set upper_chars"
  by (auto simp: lower_chars_def digit_chars_def upper_chars_def is_space_def)

lemma slug_host:
  assumes "slug_ok sl"
  shows "normalizeHost (sl @ ''.'' @ baseDomain) = sl @ ''.'' @ baseDomain"
proof -
  let ?x = "sl @ ''.'' @ baseDomain"
  from assms have ne: "sl \<noteq> []"
    and ch: "\<forall>c \<in> set sl. \<not> is_space c \<and> c \<notin> set upper_chars"
    using slug_char by (auto simp: slug_ok_def)
  have hd: "\<not> is_space (hd ?x)" using ne ch by (cases sl) auto
  have la: "last ?x = CHR ''l''" by (simp add: baseDomain_def)
  have t: "trim ?x = ?x"
    by (rule trim_id) (use hd la in \<open>auto simp: is_space_def\<close>)
  have "\<forall>c \<in> set (''.'' @ baseDomain). c \<notin> set upper_chars"
    by (simp add: baseDomain_def upper_chars_def)
  then have l: "toLowerCase ?x = ?x"
    using ch by (intro toLowerCase_id) auto
  have d: "strip_trailing_dot ?x = ?x"
    using la by (simp add: strip_trailing_dot_def)
  show ?thesis using t l d by (simp add: normalizeHost_def)
qed

lemma endsWith_append [simp]: "endsWith (a @ b) b"
  by (simp add: endsWith_def)

lemma slug_host': "slug_ok sl \<Longrightarrow> normalizeHost (sl @ CHR ''.'' # baseDomain) = sl @ CHR ''.'' # baseDomain"
  using slug_host[of sl] by simp

lemma ball_update:
  "P (k, v) \<Longrightarrow> \<forall>kv \<in> set al. P kv \<Longrightarrow> \<forall>kv \<in> set (AList.update k v al). P kv"
  using set_update_cases by fastforce

lemma ensureDefaultSubdomainForSchool_sub:
  assumes "inv_sub s" "map_of (schools s) schoolId = Some sc" "slug_ok (sc_slug sc)"
  shows "inv_sub (snd (ensureDefaultSubdomainForSchool rdom now schoolId s))"
  using assms
  by (auto simp: ensureDefaultSubdomainForSchool_def Let_def inv_sub_def slug_host'
      split: option.splits dest!: set_update_cases)

lemma ensureDefaultSubdomainForSchool_domains:
  assumes "inv_domains s"
  shows "inv_domains (snd (ensureDefaultSubdomainForSchool rdom now schoolId s))"
  using assms
  by (auto simp: ensureDefaultSubdomainForSchool_def Let_def inv_domains_def generateId_def
      split: option.splits dest!: set_update_cases)

lemma createSchool_inv:
  assumes "store_inv s"
  shows "store_inv (snd (createSchool rid rdom rsecret now name slug s))"
proof -
  let ?id = "generateId ''sch'' rid"
  let ?sc = "\<lparr> sc_id = ?id, sc_name = trim name, sc_slug = toLowerCase (trim slug),
               sc_status = ACTIVE, sc_createdAt = now, sc_updatedAt = now \<rparr>"
  let ?s1 = "s\<lparr>schools := AList.update ?id ?sc (schools s)\<rparr>"
  have c: "clean_id ?id" by (rule generateId_clean) (simp_all add: is_space_def)
  have sch: "inv_schools ?s1"
    using assms c by (auto simp: store_inv_def inv_schools_def dest!: set_update_cases)
  have rest: "inv_orders ?s1" "inv_events ?s1" "inv_domains ?s1" "inv_custom ?s1" "inv_sub ?s1"
    using assms
    by (simp_all add: store_inv_def inv_orders_def inv_events_def inv_domains_def inv_custom_def
        inv_sub_def)
  let ?r = "ensureDefaultSubdomainForSchool rdom now ?id ?s1"
  have look: "map_of (schools ?s1) ?id = Some ?sc" by (simp add: update_conv')
  have e: "slug_ok (toLowerCase (trim slug)) \<Longrightarrow> store_inv (snd ?r)"
    unfolding store_inv_def
    using sch rest ensureDefaultSubdomainForSchool_sub[OF rest(5) look]
      ensureDefaultSubdomainForSchool_domains[OF rest(3)]
    by (simp add: inv_schools_def inv_orders_def inv_events_def inv_custom_def)
  have f: "store_inv (s'\<lparr>localizations := l\<rparr>) = store_inv s'"
    "store_inv (s'\<lparr>gateway := g\<rparr>) = store_inv s'" for s' l g
    by (simp_all add: store_inv_def inv_schools_def inv_orders_def inv_events_def
        inv_domains_def inv_custom_def inv_sub_def)
  show ?thesis
    using assms e
    by (auto simp: createSchool_def Let_def f split: prod.splits sum.splits)
qed

lemma store_inv_cong:
  assumes "schools s' = schools s" "orders s' = orders s" "webhookEvents s' = webhookEvents s"
    "domains s' = domains s" "byCustomDomain s' = byCustomDomain s"
    "bySubdomain s' = bySubdomain s"
  shows "store_inv s' = store_inv s"
  using assms
  by (simp add: store_inv_def inv_schools_def inv_orders_def inv_events_def inv_domains_def
      inv_custom_def inv_sub_def)

lemma inv_schoolsD: "inv_schools s \<Longrightarrow> map_of (schools s) k = Some v \<Longrightarrow> clean_id k"
  by (auto simp: inv_schools_def dest!: map_of_SomeD)

lemma inv_ordersD: "inv_orders s \<Longrightarrow> map_of (orders s) k = Some v \<Longrightarrow> clean_id k"
  by (auto simp: inv_orders_def dest!: map_of_SomeD)

lemma inv_eventsD: "inv_events s \<Longrightarrow> map_of (webhookEvents s) k = Some v \<Longrightarrow> clean_id k"
  by (auto simp: inv_events_def dest!: map_of_SomeD)

lemma inv_domainsD: "inv_domains s \<Longrightarrow> map_of (domains s) k = Some v \<Longrightarrow> dc_id v \<noteq> []"
  by (auto simp: inv_domains_def dest!: map_of_SomeD)

lemma inv_customD:
  "inv_custom s \<Longrightarrow> map_of (byCustomDomain s) k = Some v \<Longrightarrow>
     \<not> endsWith k (''.'' @ baseDomain) \<and> v \<noteq> []"
  by (auto simp: inv_custom_def dest!: map_of_SomeD)

lemma inv_subD:
  "inv_sub s \<Longrightarrow> map_of (bySubdomain s) k = Some v \<Longrightarrow> endsWith k (''.'' @ baseDomain)"
  by (auto simp: inv_sub_def dest!: map_of_SomeD)

lemma setSchoolStatus_inv:
  assumes "store_inv s"
  shows "store_inv (snd (setSchoolStatus now schoolId status s))"
proof -
  have "inv_schools (snd (setSchoolStatus now schoolId status s))"
    using assms inv_schoolsD[of s schoolId]
    by (auto simp: store_inv_def inv_schools_def setSchoolStatus_def Let_def
        split: option.splits dest!: set_update_cases)
  then show ?thesis
    using assms
    by (simp add: store_inv_def inv_orders_def inv_events_def inv_domains_def inv_custom_def
        inv_sub_def)
qed

lemma requestCustomDomain_inv:
  assumes "store_inv s"
  shows "store_inv (snd (requestCustomDomain rtoken rid now schoolId domain s))"
proof -
  let ?s' = "snd (requestCustomDomain rtoken rid now schoolId domain s)"
  have g: "generateId ''dom'' rid \<noteq> []" by (simp add: generateId_def)
  have d: "inv_domains ?s'"
    using assms g
    by (auto simp: store_inv_def inv_domains_def requestCustomDomain_def Let_def
        split: option.splits sum.splits
        dest!: set_update_cases set_update_first_cases)
  have c: "inv_custom ?s'"
    using assms g
    by (auto simp: store_inv_def inv_custom_def inv_domains_def requestCustomDomain_def Let_def
        split: option.splits sum.splits
        dest!: set_update_cases find_snd_mem)
  show ?thesis
    using assms d c
    by (simp add: store_inv_def inv_schools_def inv_orders_def inv_events_def inv_sub_def)
qed

lemma verifyCustomDomain_inv:
  assumes "store_inv s"
  shows "store_inv (snd (verifyCustomDomain now schoolId domain token s))"
proof -
  have "inv_domains (snd (verifyCustomDomain now schoolId domain token s))"
    using assms inv_domainsD[of s]
    by (auto simp: store_inv_def verifyCustomDomain_def Let_def inv_domains_def
        split: option.splits sum.splits dest!: set_update_cases)
  then show ?thesis
    using assms
    by (simp add: store_inv_def inv_schools_def inv_orders_def inv_events_def inv_custom_def
        inv_sub_def)
qed

lemma createOrder_inv:
  assumes "store_inv s"
  shows "store_inv (snd (createOrder rt rid nowMs now schoolId courseId buyerEmail s))"
proof -
  have c: "clean_id (generateId ''ord'' rid)"
    by (rule generateId_clean) (simp_all add: is_space_def)
  have "inv_orders (snd (createOrder rt rid nowMs now schoolId courseId buyerEmail s))"
    using assms c
    by (auto simp: store_inv_def inv_orders_def createOrder_def Let_def
        split: option.splits sum.splits dest!: set_update_cases)
  then show ?thesis
    using assms
    by (simp add: store_inv_def inv_schools_def inv_events_def inv_domains_def inv_custom_def
        inv_sub_def)
qed

lemma payloadField_clean: "payloadField payload name \<noteq> [] \<Longrightarrow> clean_id (payloadField payload name)"
  unfolding payloadField_def by (rule trim_clean)

lemma applyWebhook_orders:
  "orders (snd (applyWebhook renr now prov eventId schoolId orderId paymentId result payload
      signature order payment s)) =
   AList.update orderId
     (if result = ''APPROVED''
      then order\<lparr>o_status := PAID, o_paidAt := Some now, o_updatedAt := now\<rparr>
      else order\<lparr>o_status := FAILED, o_updatedAt := now\<rparr>) (orders s)"
  by (simp add: applyWebhook_def Let_def)

lemma applyWebhook_payments:
  "payments (snd (applyWebhook renr now prov eventId schoolId orderId paymentId result payload
      signature order payment s)) =
   AList.update paymentId
     (if result = ''APPROVED''
      then payment\<lparr>p_status := SUCCEEDED, p_updatedAt := now\<rparr>
      else payment\<lparr>p_status := PAYMENT_FAILED, p_updatedAt := now\<rparr>) (payments s)"
  by (simp add: applyWebhook_def Let_def)

lemma applyWebhook_events:
  "map fst (webhookEvents (snd (applyWebhook renr now prov eventId schoolId orderId paymentId
      result payload signature order payment s))) =
   map fst (AList.update eventId undefined (webhookEvents s))"
  by (simp add: applyWebhook_def Let_def update_keys)

lemma applyWebhook_snapshot:
  "map_of (webhookEvents (snd (applyWebhook renr now prov eventId schoolId orderId paymentId
      result payload signature order payment s))) eventId =
   Some \<lparr> we_id = eventId, we_provider = prov, we_schoolId = schoolId,
          we_orderId = orderId, we_paymentId = paymentId, we_receivedAt = now,
          we_payload = stableStringify payload, we_signature = str_or_empty signature,
          we_resultSnapshot = fst (applyWebhook renr now prov eventId schoolId orderId paymentId
            result payload signature order payment s) \<rparr>"
  by (simp add: applyWebhook_def Let_def update_conv')

lemma receiveWebhook_inv:
  assumes "store_inv s"
  shows "store_inv (snd (receiveWebhook rt renr now provider payload signature s))"
proof -
  let ?r = "receiveWebhook rt renr now provider payload signature s"
  from receiveWebhook_cases[of rt renr now provider payload signature s "fst ?r" "snd ?r"]
  consider "snd ?r = s"
    | order payment where
        "map_of (orders s) (payloadField payload ''orderId'') = Some order"
        "payloadField payload ''eventId'' \<noteq> []"
        "snd ?r = snd (applyWebhook renr now (webhookProvider provider payload)
             (payloadField payload ''eventId'') (payloadField payload ''schoolId'')
             (payloadField payload ''orderId'') (payloadField payload ''paymentId'')
             (toUpperCase (payloadField payload ''result'')) payload signature order payment s)"
    by auto
  then show ?thesis
  proof cases
    case 1
    then show ?thesis using assms by simp
  next
    case 2
    have ko: "clean_id (payloadField payload ''orderId'')"
      using assms 2(1) inv_ordersD by (auto simp: store_inv_def)
    have ke: "clean_id (payloadField payload ''eventId'')"
      using 2(2) by (rule payloadField_clean)
    have o: "inv_orders (snd ?r)"
      using assms ko unfolding 2(3) inv_orders_def applyWebhook_orders store_inv_def
      by (auto dest!: set_update_cases)
    have sub: "set (map fst (webhookEvents (snd ?r))) \<subseteq>
        insert (payloadField payload ''eventId'') (set (map fst (webhookEvents s)))"
      unfolding 2(3) applyWebhook_events by (auto simp: update_keys)
    have e: "inv_events (snd ?r)"
      unfolding inv_events_def
    proof
      fix kv assume "kv \<in> set (webhookEvents (snd ?r))"
      then have "fst kv \<in> set (map fst (webhookEvents (snd ?r)))" by simp
      with sub have "fst kv = payloadField payload ''eventId'' \<or>
          fst kv \<in> set (map fst (webhookEvents s))" by blast
      then show "clean_id (fst kv)"
      proof
        assume "fst kv = payloadField payload ''eventId''"
        then show ?thesis using ke by simp
      next
        assume "fst kv \<in> set (map fst (webhookEvents s))"
        then obtain kv' where "kv' \<in> set (webhookEvents s)" "fst kv' = fst kv" by auto
        then show ?thesis using assms by (auto simp: store_inv_def inv_events_def)
      qed
    qed
    show ?thesis
      using assms o e
      by (simp add: store_inv_def inv_schools_def inv_domains_def inv_custom_def inv_sub_def)
  qed
qed

lemma store_inv_frame:
  assumes "store_inv s" "schools s' = schools s" "orders s' = orders s"
    "webhookEvents s' = webhookEvents s" "domains s' = domains s"
    "byCustomDomain s' = byCustomDomain s" "bySubdomain s' = bySubdomain s"
  shows "store_inv s'"
  using assms store_inv_cong[of s' s] by simp

lemma exec_inv:
  assumes "store_inv s"
  shows "store_inv (exec rt c s)"
proof (cases c)
  case (CreateSchool rid rdom rsecret now name slug)
  then show ?thesis using assms by (simp add: createSchool_inv)
next
  case (SetSchoolStatus now schoolId status)
  then show ?thesis using assms by (simp add: setSchoolStatus_inv)
next
  case (RequestCustomDomain rtoken rid now schoolId domain)
  then show ?thesis using assms by (simp add: requestCustomDomain_inv)
next
  case (VerifyCustomDomain now schoolId domain token)
  then show ?thesis using assms by (simp add: verifyCustomDomain_inv)
next
  case (UpdateLocalization now schoolId patch)
  show ?thesis unfolding UpdateLocalization exec.simps
    by (rule store_inv_frame[OF assms]) simp_all
next
  case (RotateWebhookSecret rsecret now schoolId)
  show ?thesis unfolding RotateWebhookSecret exec.simps
    by (rule store_inv_frame[OF assms]) simp_all
next
  case (CreateCourseAI rid now schoolId title description p cur pr)
  show ?thesis unfolding CreateCourseAI exec.simps createCourseAI_def
    by (rule store_inv_frame[OF assms]) simp_all
next
  case (CreateCourseImport rid now schoolId title description p cur pr)
  show ?thesis unfolding CreateCourseImport exec.simps createCourseImport_def
    by (rule store_inv_frame[OF assms]) simp_all
next
  case (AiGenerateStructure now schoolId courseId inputs)
  show ?thesis unfolding AiGenerateStructure exec.simps
    by (rule store_inv_frame[OF assms]) simp_all
next
  case (EditCourseStructure now schoolId courseId ms)
  show ?thesis unfolding EditCourseStructure exec.simps
    by (rule store_inv_frame[OF assms]) simp_all
next
  case (ApproveCourseStructure now schoolId courseId)
  show ?thesis unfolding ApproveCourseStructure exec.simps
    by (rule store_inv_frame[OF assms]) simp_all
next
  case (AiGenerateFullCourse now schoolId courseId)
  show ?thesis unfolding AiGenerateFullCourse exec.simps
    by (rule store_inv_frame[OF assms]) simp_all
next
  case (SetImportStructure now schoolId courseId ms)
  show ?thesis unfolding SetImportStructure exec.simps
    by (rule store_inv_frame[OF assms]) simp_all
next
  case (PublishCourse now schoolId courseId)
  show ?thesis unfolding PublishCourse exec.simps
    by (rule store_inv_frame[OF assms]) simp_all
next
  case (CreateOrder rid nowMs now schoolId courseId buyerEmail)
  then show ?thesis using assms by (simp add: createOrder_inv)
next
  case (StartDemoCheckout rpay rwhk now schoolId orderId outcome)
  show ?thesis unfolding StartDemoCheckout exec.simps
    by (rule store_inv_frame[OF assms]) simp_all
next
  case (ReceiveWebhook renr now provider payload signature)
  then show ?thesis using assms by (simp add: receiveWebhook_inv)
qed

lemma init_inv: "store_inv init_db"
  by (simp add: store_inv_def init_db_def inv_schools_def inv_orders_def inv_events_def
      inv_domains_def inv_custom_def inv_sub_def)

lemma reachable_inv: "reachable rt s \<Longrightarrow> store_inv s"
  by (induction rule: reachable.induct) (simp_all add: init_inv exec_inv)

section \<open>The worked scenario, step by step\<close>

lemma demo_step1: "fresh (demo_call 1) init_db \<and> exec test_runtime (demo_call 1) init_db = demo1"
  by code_simp

lemma demo_step2: "fresh (demo_call 2) demo1 \<and> exec test_runtime (demo_call 2) demo1 = demo2"
  by code_simp

lemma demo_step3: "fresh (demo_call 3) demo2 \<and> exec test_runtime (demo_call 3) demo2 = demo3"
  by code_simp

lemma demo_step4: "fresh (demo_call 4) demo3 \<and> exec test_runtime (demo_call 4) demo3 = demo4"
  by code_simp

lemma demo_step5: "fresh (demo_call 5) demo4 \<and> exec test_runtime (demo_call 5) demo4 = demo5"
  by code_simp

lemma demo_step6: "fresh (demo_call 6) demo5 \<and> exec test_runtime (demo_call 6) demo5 = demo6"
  by code_simp

lemma demo_step7: "fresh (demo_call 7) demo6 \<and> exec test_runtime (demo_call 7) demo6 = demo7"
  by code_simp

lemma demo_step8: "fresh (demo_call 8) demo7 \<and> exec test_runtime (demo_call 8) demo7 = demo8"
  by code_simp

lemma demo_step9: "fresh (demo_call 9) demo8 \<and> exec test_runtime (demo_call 9) demo8 = demo9"
  by code_simp

lemma demo_step10: "fresh (demo_call 10) demo9 \<and> exec test_runtime (demo_call 10) demo9 = demo10"
  by code_simp

lemma demo_step11: "fresh (demo_call 11) demo10 \<and> exec test_runtime (demo_call 11) demo10 = demo11"
  by code_simp

lemma demo_step12: "fresh (demo_call 12) demo11 \<and> exec test_runtime (demo_call 12) demo11 = demo12"
  by code_simp

lemma demo_step13: "fresh (demo_call 13) demo12 \<and> exec test_runtime (demo_call 13) demo12 = demo13"
  by code_simp

lemma demo_step14: "fresh (demo_call 14) demo11 \<and> exec test_runtime (demo_call 14) demo11 = demo14"
  by code_simp

lemma demo_step15: "fresh (demo_call 15) demo14 \<and> exec test_runtime (demo_call 15) demo14 = demo15"
  by code_simp

lemma demo_reachable:
  "reachable test_runtime demo1" "reachable test_runtime demo2" "reachable test_runtime demo3"
  "reachable test_runtime demo4" "reachable test_runtime demo5" "reachable test_runtime demo6"
  "reachable test_runtime demo7" "reachable test_runtime demo8" "reachable test_runtime demo9"
  "reachable test_runtime demo10" "reachable test_runtime demo11" "reachable test_runtime demo12"
  "reachable test_runtime demo13" "reachable test_runtime demo14" "reachable test_runtime demo15"
proof -
  note st = reachable.step[of test_runtime]
  show r1: "reachable test_runtime demo1"
    using st[OF reachable.init, of "demo_call 1"] demo_step1 by simp
  show r2: "reachable test_runtime demo2"
    using st[OF r1, of "demo_call 2"] demo_step2 by simp
  show r3: "reachable test_runtime demo3"
    using st[OF r2, of "demo_call 3"] demo_step3 by simp
  show r4: "reachable test_runtime demo4"
    using st[OF r3, of "demo_call 4"] demo_step4 by simp
  show r5: "reachable test_runtime demo5"
    using st[OF r4, of "demo_call 5"] demo_step5 by simp
  show r6: "reachable test_runtime demo6"
    using st[OF r5, of "demo_call 6"] demo_step6 by simp
  show r7: "reachable test_runtime demo7"
    using st[OF r6, of "demo_call 7"] demo_step7 by simp
  show r8: "reachable test_runtime demo8"
    using st[OF r7, of "demo_call 8"] demo_step8 by simp
  show r9: "reachable test_runtime demo9"
    using st[OF r8, of "demo_call 9"] demo_step9 by simp
  show r10: "reachable test_runtime demo10"
    using st[OF r9, of "demo_call 10"] demo_step10 by simp
  show r11: "reachable test_runtime demo11"
    using st[OF r10, of "demo_call 11"] demo_step11 by simp
  show r12: "reachable test_runtime demo12"
    using st[OF r11, of "demo_call 12"] demo_step12 by simp
  show r13: "reachable test_runtime demo13"
    using st[OF r12, of "demo_call 13"] demo_step13 by simp
  show r14: "reachable test_runtime demo14"
    using st[OF r11, of "demo_call 14"] demo_step14 by simp
  show r15: "reachable test_runtime demo15"
    using st[OF r14, of "demo_call 15"] demo_step15 by simp
qed

section \<open>Pricing\<close>

lemma round2_hundredths:
  "\<exists>k. round2 n = fl (of_int k / 100) \<and> \<bar>of_int k - fl (n * 100)\<bar> \<le> 1 / 2"
proof -
  let ?x = "fl (n * 100)"
  have "of_int \<lfloor>?x + 1 / 2\<rfloor> \<le> ?x + 1 / 2" by (rule of_int_floor_le)
  moreover have "?x + 1 / 2 < of_int \<lfloor>?x + 1 / 2\<rfloor> + 1" by linarith
  ultimately have "\<bar>of_int (Math_round ?x) - ?x\<bar> \<le> 1 / 2"
    unfolding Math_round_def by linarith
  then show ?thesis unfolding round2_def by blast
qed

lemma price_example_promo:
  "round2 (fl (fl (1999 / 10) * fl (1 - fl (20 / 100)))) = fl (15992 / 100)"
  by code_simp

lemma price_example_half:
  "round2 (fl (fl (1003 / 100) * fl (1 - fl (50 / 100)))) = fl (501 / 100)"
  by code_simp

text \<open>
  C4.  \<^verbatim>\<open>getEffectivePrice\<close> returns the base price when the pricing has no promo and
  when \<open>now\<close> is after the promo's date; up to and including that date a PERCENT promo
  gives \<open>round2 (price * (1 - value / 100))\<close> and a FIXED promo \<open>round2 (price - value)\<close>,
  every operation in double arithmetic.  \<open>round2\<close> returns the double nearest to a
  whole number of hundredths, the number of hundredths being within one half of a
  hundred times its argument.  The function is a pure value: there is no error and no
  store in its type.  For a base price of 199.90 with 20 percent off until \<open>T\<close> the
  result is 159.92 before \<open>T\<close> and 199.90 after it; for 10.03 with 50 percent off it
  is 5.01.
\<close>

theorem getEffectivePrice_cases:
  "(promo pricing = None \<longrightarrow> getEffectivePrice rt pricing now = price pricing) \<and>
   (\<forall>pr until. promo pricing = Some pr \<and> dateParse rt (pr_untilIso pr) = Some until \<longrightarrow>
      (now > until \<longrightarrow> getEffectivePrice rt pricing now = price pricing) \<and>
      (now \<le> until \<and> pr_type pr = PERCENT \<longrightarrow>
         getEffectivePrice rt pricing now =
           round2 (fl (price pricing * fl (1 - fl (pr_value pr / 100))))) \<and>
      (now \<le> until \<and> pr_type pr = FIXED \<longrightarrow>
         getEffectivePrice rt pricing now = round2 (fl (price pricing - pr_value pr)))) \<and>
   (\<forall>n. \<exists>k. round2 n = fl (of_int k / 100) \<and> \<bar>of_int k - fl (n * 100)\<bar> \<le> 1 / 2) \<and>
   (\<forall>u T. dateParse rt u = Some T \<longrightarrow>
      (now < T \<longrightarrow>
         getEffectivePrice rt
           \<lparr> price = fl (1999 / 10), currency = ''BRL'',
             promo = Some \<lparr> pr_type = PERCENT, pr_value = 20, pr_untilIso = u \<rparr> \<rparr> now
         = fl (15992 / 100)) \<and>
      (now > T \<longrightarrow>
         getEffectivePrice rt
           \<lparr> price = fl (1999 / 10), currency = ''BRL'',
             promo = Some \<lparr> pr_type = PERCENT, pr_value = 20, pr_untilIso = u \<rparr> \<rparr> now
         = fl (1999 / 10)) \<and>
      (now \<le> T \<longrightarrow>
         getEffectivePrice rt
           \<lparr> price = fl (1003 / 100), currency = ''BRL'',
             promo = Some \<lparr> pr_type = PERCENT, pr_value = 50, pr_untilIso = u \<rparr> \<rparr> now
         = fl (501 / 100)))"
proof (intro conjI allI impI)
  show "getEffectivePrice rt pricing now = price pricing" if "promo pricing = None"
    using that by (simp add: getEffectivePrice_def)
next
  fix pr until
  assume h: "promo pricing = Some pr \<and> dateParse rt (pr_untilIso pr) = Some until"
  show "getEffectivePrice rt pricing now = price pricing" if "now > until"
    using h that by (simp add: getEffectivePrice_def)
  show "getEffectivePrice rt pricing now =
      round2 (fl (price pricing * fl (1 - fl (pr_value pr / 100))))"
    if "now \<le> until \<and> pr_type pr = PERCENT"
    using h that by (simp add: getEffectivePrice_def)
  show "getEffectivePrice rt pricing now = round2 (fl (price pricing - pr_value pr))"
    if "now \<le> until \<and> pr_type pr = FIXED"
    using h that by (simp add: getEffectivePrice_def)
next
  fix n
  show "\<exists>k. round2 n = fl (of_int k / 100) \<and> \<bar>of_int k - fl (n * 100)\<bar> \<le> 1 / 2"
    by (rule round2_hundredths)
next
  fix u T
  assume h: "dateParse rt u = Some T"
  show "getEffectivePrice rt
           \<lparr> price = fl (1999 / 10), currency = ''BRL'',
             promo = Some \<lparr> pr_type = PERCENT, pr_value = 20, pr_untilIso = u \<rparr> \<rparr> now
         = fl (15992 / 100)" if "now < T"
    using h that price_example_promo by (simp add: getEffectivePrice_def)
  show "getEffectivePrice rt
           \<lparr> price = fl (1999 / 10), currency = ''BRL'',
             promo = Some \<lparr> pr_type = PERCENT, pr_value = 20, pr_untilIso = u \<rparr> \<rparr> now
         = fl (1999 / 10)" if "now > T"
    using h that by (simp add: getEffectivePrice_def)
  show "getEffectivePrice rt
           \<lparr> price = fl (1003 / 100), currency = ''BRL'',
             promo = Some \<lparr> pr_type = PERCENT, pr_value = 50, pr_untilIso = u \<rparr> \<rparr> now
         = fl (501 / 100)" if "now \<le> T"
    using h that price_example_half by (simp add: getEffectivePrice_def)
qed

theorem getEffectivePrice_cases_witness:
  "getEffectivePrice test_runtime
     \<lparr> price = fl (1999 / 10), currency = ''BRL'',
       promo = Some \<lparr> pr_type = PERCENT, pr_value = 20,
                      pr_untilIso = ''2030-01-01T00:00:00.000Z'' \<rparr> \<rparr> 1767225600000
     = fl (15992 / 100) \<and>
   getEffectivePrice test_runtime
     \<lparr> price = fl (1999 / 10), currency = ''BRL'',
       promo = Some \<lparr> pr_type = PERCENT, pr_value = 20,
                      pr_untilIso = ''2030-01-01T00:00:00.000Z'' \<rparr> \<rparr> 1900000000000
     = fl (1999 / 10) \<and>
   getEffectivePrice test_runtime
     \<lparr> price = fl (1003 / 100), currency = ''BRL'',
       promo = Some \<lparr> pr_type = PERCENT, pr_value = 50,
                      pr_untilIso = ''2030-01-01T00:00:00.000Z'' \<rparr> \<rparr> 1767225600000
     = fl (501 / 100) \<and>
   getEffectivePrice test_runtime
     \<lparr> price = 50, currency = ''BRL'',
       promo = Some \<lparr> pr_type = FIXED, pr_value = 5 / 2,
                      pr_untilIso = ''2030-01-01T00:00:00.000Z'' \<rparr> \<rparr> 1893456000000
     = round2 (fl (50 - 5 / 2)) \<and>
   getEffectivePrice test_runtime \<lparr> price = 50, currency = ''BRL'', promo = None \<rparr> 1767225600000
     = 50"
proof -
  let ?u = "''2030-01-01T00:00:00.000Z''"
  have d: "dateParse test_runtime ?u = Some 1893456000000"
    by (simp add: test_runtime_def test_dateParse_def)
  let ?P = "\<lparr> price = fl (1999 / 10), currency = ''BRL'',
       promo = Some \<lparr> pr_type = PERCENT, pr_value = 20, pr_untilIso = ?u \<rparr> \<rparr>"
  let ?F = "\<lparr> price = 50, currency = ''BRL'',
       promo = Some \<lparr> pr_type = FIXED, pr_value = 5 / 2, pr_untilIso = ?u \<rparr> \<rparr>"
  let ?N = "\<lparr> price = 50, currency = ''BRL'', promo = None \<rparr>"
  note a = getEffectivePrice_cases [of ?P test_runtime 1767225600000]
  note b = getEffectivePrice_cases [of ?P test_runtime 1900000000000]
  note c = getEffectivePrice_cases [of ?F test_runtime 1893456000000]
  note e = getEffectivePrice_cases [of ?N test_runtime 1767225600000]
  have lt: "(1767225600000::int) < 1893456000000" "(1767225600000::int) \<le> 1893456000000"
    "(1900000000000::int) > 1893456000000" "(1893456000000::int) \<le> 1893456000000"
    by simp_all
  have sel:
    "promo ?F = Some \<lparr> pr_type = FIXED, pr_value = 5 / 2, pr_untilIso = ?u \<rparr>"
    "promo ?N = None" "price ?F = 50" "price ?N = 50"
    by simp_all
  from a d lt have 1: "getEffectivePrice test_runtime ?P 1767225600000 = fl (15992 / 100)"
    by blast
  from b d lt have 2: "getEffectivePrice test_runtime ?P 1900000000000 = fl (1999 / 10)"
    by blast
  from a d lt have 3: "getEffectivePrice test_runtime
     \<lparr> price = fl (1003 / 100), currency = ''BRL'',
       promo = Some \<lparr> pr_type = PERCENT, pr_value = 50, pr_untilIso = ?u \<rparr> \<rparr> 1767225600000
     = fl (501 / 100)"
    by blast
  from c d lt sel have 4: "getEffectivePrice test_runtime ?F 1893456000000 = round2 (fl (50 - 5 / 2))"
    by fastforce
  from e sel have 5: "getEffectivePrice test_runtime ?N 1767225600000 = 50"
    by metis
  from 1 2 3 4 5 show ?thesis by blast
qed

text \<open>
  C5.  The checks of \<^verbatim>\<open>normalizePromo\<close> are made on the value as given, and the effective
  price is rounded afterwards: a price of 1.00 with an accepted promo of 99.75 percent, or
  with an accepted fixed promo of 0.999 (stored as 1.00), has the effective price 0.
\<close>

theorem promo_zeroes_price:
  "normalizePricing (Some 1) ''BRL''
     (Some \<lparr> pi_type = ''PERCENT'', pi_value = Some (399 / 4),
             pi_untilIso = ''2030-01-01T00:00:00.000Z'' \<rparr>)
     = Inr \<lparr> price = 1, currency = ''BRL'',
             promo = Some \<lparr> pr_type = PERCENT, pr_value = 399 / 4,
                            pr_untilIso = ''2030-01-01T00:00:00.000Z'' \<rparr> \<rparr> \<and>
   getEffectivePrice test_runtime
     \<lparr> price = 1, currency = ''BRL'',
       promo = Some \<lparr> pr_type = PERCENT, pr_value = 399 / 4,
                      pr_untilIso = ''2030-01-01T00:00:00.000Z'' \<rparr> \<rparr> 1767225600000 = 0 \<and>
   fl (999 / 1000) < 1 \<and>
   normalizePricing (Some 1) ''BRL''
     (Some \<lparr> pi_type = ''FIXED'', pi_value = Some (fl (999 / 1000)),
             pi_untilIso = ''2030-01-01T00:00:00.000Z'' \<rparr>)
     = Inr \<lparr> price = 1, currency = ''BRL'',
             promo = Some \<lparr> pr_type = FIXED, pr_value = 1,
                            pr_untilIso = ''2030-01-01T00:00:00.000Z'' \<rparr> \<rparr> \<and>
   getEffectivePrice test_runtime
     \<lparr> price = 1, currency = ''BRL'',
       promo = Some \<lparr> pr_type = FIXED, pr_value = 1,
                      pr_untilIso = ''2030-01-01T00:00:00.000Z'' \<rparr> \<rparr> 1767225600000 = 0"
  by code_simp

section \<open>The webhook processor\<close>

lemma receiveWebhook_first:
  assumes "webhookProvider provider payload = ''DEMO''"
    and "payloadField payload ''eventId'' \<noteq> []"
    and "map_of (webhookEvents s) (payloadField payload ''eventId'') = None"
    and "payloadField payload ''schoolId'' \<noteq> []"
    and "payloadField payload ''orderId'' \<noteq> []"
    and "payloadField payload ''paymentId'' \<noteq> []"
    and "toUpperCase (payloadField payload ''result'') = ''APPROVED'' \<or>
         toUpperCase (payloadField payload ''result'') = ''DECLINED''"
    and "map_of (gateway s) (payloadField payload ''schoolId'') = Some g"
    and "trim (str_or_empty signature) =
           hmacSha256 rt (gw_webhookSecret g) (stableStringify payload)"
    and "map_of (orders s) (payloadField payload ''orderId'') = Some order"
    and "o_schoolId order = payloadField payload ''schoolId''"
    and "map_of (payments s) (payloadField payload ''paymentId'') = Some payment"
    and "p_schoolId payment = payloadField payload ''schoolId''"
    and "p_orderId payment = payloadField payload ''orderId''"
  shows "receiveWebhook rt renr now provider payload signature s =
     (Inr (fst (applyWebhook renr now ''DEMO'' (payloadField payload ''eventId'')
             (payloadField payload ''schoolId'') (payloadField payload ''orderId'')
             (payloadField payload ''paymentId'')
             (toUpperCase (payloadField payload ''result'')) payload signature order payment s)),
      snd (applyWebhook renr now ''DEMO'' (payloadField payload ''eventId'')
             (payloadField payload ''schoolId'') (payloadField payload ''orderId'')
             (payloadField payload ''paymentId'')
             (toUpperCase (payloadField payload ''result'')) payload signature order payment s))"
  using assms by (auto simp: receiveWebhook_def Let_def split: prod.splits)

lemma applyWebhook_status:
  "snap_orderStatus (fst (applyWebhook renr now prov eventId schoolId orderId paymentId result
      payload signature order payment s)) = (if result = ''APPROVED'' then PAID else FAILED)"
  by (simp add: applyWebhook_def Let_def)

lemma ensureEnrollment_granted:
  "map_of (bySchoolBuyerCourse (snd (ensureEnrollment renr now schoolId buyerEmail courseId orderId s)))
     (enrollmentKey schoolId buyerEmail courseId) \<noteq> None"
  by (auto simp: ensureEnrollment_def Let_def update_conv' split: option.splits)

lemma applyWebhook_granted:
  "result = ''APPROVED'' \<Longrightarrow>
   map_of (bySchoolBuyerCourse (snd (applyWebhook renr now prov eventId schoolId orderId paymentId
      result payload signature order payment s)))
     (enrollmentKey schoolId (o_buyerEmail order) (o_courseId order)) \<noteq> None"
  using ensureEnrollment_granted by (simp add: applyWebhook_def Let_def)

lemma ensureEnrollment_schools:
  "ensureEnrollment renr now schoolId buyerEmail courseId orderId (s\<lparr>schools := X\<rparr>) =
     (fst (ensureEnrollment renr now schoolId buyerEmail courseId orderId s),
      (snd (ensureEnrollment renr now schoolId buyerEmail courseId orderId s))\<lparr>schools := X\<rparr>)"
  by (simp add: ensureEnrollment_def Let_def split: option.splits)

lemma applyWebhook_schools:
  "applyWebhook renr now prov eventId schoolId orderId paymentId result payload signature
      order payment (s\<lparr>schools := X\<rparr>) =
     (fst (applyWebhook renr now prov eventId schoolId orderId paymentId result payload signature
        order payment s),
      (snd (applyWebhook renr now prov eventId schoolId orderId paymentId result payload signature
        order payment s))\<lparr>schools := X\<rparr>)"
proof -
  have e: "snd (ensureEnrollment renr now schoolId b c oid (s'\<lparr>schools := X\<rparr>)) =
      (snd (ensureEnrollment renr now schoolId b c oid s'))\<lparr>schools := X\<rparr>" for b c oid s'
    by (simp add: ensureEnrollment_schools)
  have sw: "s\<lparr>schools := X, orders := a, payments := b\<rparr> = s\<lparr>orders := a, payments := b, schools := X\<rparr>" for a b
    by simp
  show ?thesis
    by (simp add: applyWebhook_def Let_def sw e)
qed

lemma receiveWebhook_schools:
  "receiveWebhook rt renr now provider payload signature (s\<lparr>schools := X\<rparr>) =
     (fst (receiveWebhook rt renr now provider payload signature s),
      (snd (receiveWebhook rt renr now provider payload signature s))\<lparr>schools := X\<rparr>)"
  by (simp add: receiveWebhook_def Let_def applyWebhook_schools split: option.splits prod.splits)

lemma suspended_rejected:
  assumes "map_of (schools s) schoolId = Some sc" "sc_status sc = SUSPENDED"
  shows "createOrder rt rid nowMs now schoolId courseId buyerEmail s = (Inl ''SCHOOL_SUSPENDED'', s)"
    and "startDemoCheckout rt rpay rwhk now schoolId orderId outcome s = (Inl ''SCHOOL_SUSPENDED'', s)"
  using assms
  by (simp_all add: createOrder_def startDemoCheckout_def courseForSchool_def assertSchoolActive_def)

text \<open>
  C10.  \<^verbatim>\<open>receiveWebhook\<close> never reads the table of schools.  A first delivery that passes
  the provider, payload, signature, order and payment checks is applied in full (order
  PAID or FAILED, payment SUCCEEDED or FAILED, and on APPROVED access granted) whatever
  the status of the school; its result does not depend on the table of schools at all;
  and on a suspended school \<^verbatim>\<open>createOrder\<close> and \<^verbatim>\<open>startDemoCheckout\<close> throw
  \<^verbatim>\<open>SCHOOL_SUSPENDED\<close>.
\<close>

theorem receiveWebhook_ignores_school_status:
  "(webhookProvider provider payload = ''DEMO'' \<and>
    payloadField payload ''eventId'' \<noteq> [] \<and>
    map_of (webhookEvents s) (payloadField payload ''eventId'') = None \<and>
    payloadField payload ''schoolId'' \<noteq> [] \<and>
    payloadField payload ''orderId'' \<noteq> [] \<and>
    payloadField payload ''paymentId'' \<noteq> [] \<and>
    (toUpperCase (payloadField payload ''result'') = ''APPROVED'' \<or>
     toUpperCase (payloadField payload ''result'') = ''DECLINED'') \<and>
    map_of (gateway s) (payloadField payload ''schoolId'') = Some g \<and>
    trim (str_or_empty signature) =
      hmacSha256 rt (gw_webhookSecret g) (stableStringify payload) \<and>
    map_of (orders s) (payloadField payload ''orderId'') = Some order \<and>
    o_schoolId order = payloadField payload ''schoolId'' \<and>
    map_of (payments s) (payloadField payload ''paymentId'') = Some payment \<and>
    p_schoolId payment = payloadField payload ''schoolId'' \<and>
    p_orderId payment = payloadField payload ''orderId''
    \<longrightarrow>
    (\<exists>snap. fst (receiveWebhook rt renr now provider payload signature s) = Inr snap \<and>
       snap_orderStatus snap =
         (if toUpperCase (payloadField payload ''result'') = ''APPROVED'' then PAID else FAILED)) \<and>
    map_option o_status
      (map_of (orders (snd (receiveWebhook rt renr now provider payload signature s)))
        (payloadField payload ''orderId'')) =
      Some (if toUpperCase (payloadField payload ''result'') = ''APPROVED'' then PAID else FAILED) \<and>
    map_option p_status
      (map_of (payments (snd (receiveWebhook rt renr now provider payload signature s)))
        (payloadField payload ''paymentId'')) =
      Some (if toUpperCase (payloadField payload ''result'') = ''APPROVED''
            then SUCCEEDED else PAYMENT_FAILED) \<and>
    (toUpperCase (payloadField payload ''result'') = ''APPROVED'' \<longrightarrow>
       map_of (bySchoolBuyerCourse (snd (receiveWebhook rt renr now provider payload signature s)))
         (enrollmentKey (payloadField payload ''schoolId'') (o_buyerEmail order)
            (o_courseId order)) \<noteq> None)) \<and>
   receiveWebhook rt renr now provider payload signature (s\<lparr>schools := X\<rparr>) =
     (fst (receiveWebhook rt renr now provider payload signature s),
      (snd (receiveWebhook rt renr now provider payload signature s))\<lparr>schools := X\<rparr>) \<and>
   (map_of (schools s) schoolId = Some sc \<and> sc_status sc = SUSPENDED \<longrightarrow>
      createOrder rt rid nowMs now schoolId courseId buyerEmail s = (Inl ''SCHOOL_SUSPENDED'', s) \<and>
      startDemoCheckout rt rpay rwhk now schoolId orderId outcome s =
        (Inl ''SCHOOL_SUSPENDED'', s))"
proof (intro conjI impI)
  assume h: "webhookProvider provider payload = ''DEMO'' \<and>
    payloadField payload ''eventId'' \<noteq> [] \<and>
    map_of (webhookEvents s) (payloadField payload ''eventId'') = None \<and>
    payloadField payload ''schoolId'' \<noteq> [] \<and>
    payloadField payload ''orderId'' \<noteq> [] \<and>
    payloadField payload ''paymentId'' \<noteq> [] \<and>
    (toUpperCase (payloadField payload ''result'') = ''APPROVED'' \<or>
     toUpperCase (payloadField payload ''result'') = ''DECLINED'') \<and>
    map_of (gateway s) (payloadField payload ''schoolId'') = Some g \<and>
    trim (str_or_empty signature) =
      hmacSha256 rt (gw_webhookSecret g) (stableStringify payload) \<and>
    map_of (orders s) (payloadField payload ''orderId'') = Some order \<and>
    o_schoolId order = payloadField payload ''schoolId'' \<and>
    map_of (payments s) (payloadField payload ''paymentId'') = Some payment \<and>
    p_schoolId payment = payloadField payload ''schoolId'' \<and>
    p_orderId payment = payloadField payload ''orderId''"
  then have r: "receiveWebhook rt renr now provider payload signature s =
     (Inr (fst (applyWebhook renr now ''DEMO'' (payloadField payload ''eventId'')
             (payloadField payload ''schoolId'') (payloadField payload ''orderId'')
             (payloadField payload ''paymentId'')
             (toUpperCase (payloadField payload ''result'')) payload signature order payment s)),
      snd (applyWebhook renr now ''DEMO'' (payloadField payload ''eventId'')
             (payloadField payload ''schoolId'') (payloadField payload ''orderId'')
             (payloadField payload ''paymentId'')
             (toUpperCase (payloadField payload ''result'')) payload signature order payment s))"
    by (intro receiveWebhook_first) simp_all
  show "\<exists>snap. fst (receiveWebhook rt renr now provider payload signature s) = Inr snap \<and>
       snap_orderStatus snap =
         (if toUpperCase (payloadField payload ''result'') = ''APPROVED'' then PAID else FAILED)"
    unfolding r by (simp add: applyWebhook_status)
  show "map_option o_status
      (map_of (orders (snd (receiveWebhook rt renr now provider payload signature s)))
        (payloadField payload ''orderId'')) =
      Some (if toUpperCase (payloadField payload ''result'') = ''APPROVED'' then PAID else FAILED)"
    unfolding r by (simp add: applyWebhook_orders update_conv')
  show "map_option p_status
      (map_of (payments (snd (receiveWebhook rt renr now provider payload signature s)))
        (payloadField payload ''paymentId'')) =
      Some (if toUpperCase (payloadField payload ''result'') = ''APPROVED''
            then SUCCEEDED else PAYMENT_FAILED)"
    unfolding r by (simp add: applyWebhook_payments update_conv')
  show "map_of (bySchoolBuyerCourse (snd (receiveWebhook rt renr now provider payload signature s)))
         (enrollmentKey (payloadField payload ''schoolId'') (o_buyerEmail order)
            (o_courseId order)) \<noteq> None"
    if "toUpperCase (payloadField payload ''result'') = ''APPROVED''"
    unfolding r using applyWebhook_granted[OF that] by simp
next
  show "receiveWebhook rt renr now provider payload signature (s\<lparr>schools := X\<rparr>) =
     (fst (receiveWebhook rt renr now provider payload signature s),
      (snd (receiveWebhook rt renr now provider payload signature s))\<lparr>schools := X\<rparr>)"
    by (rule receiveWebhook_schools)
next
  assume "map_of (schools s) schoolId = Some sc \<and> sc_status sc = SUSPENDED"
  then show "createOrder rt rid nowMs now schoolId courseId buyerEmail s =
      (Inl ''SCHOOL_SUSPENDED'', s)"
    and "startDemoCheckout rt rpay rwhk now schoolId orderId outcome s =
        (Inl ''SCHOOL_SUSPENDED'', s)"
    using suspended_rejected by blast+
qed

lemma demo14_facts:
  "webhookProvider (JStr ''DEMO'') demo_payload1 = ''DEMO''"
  "payloadField demo_payload1 ''eventId'' = event1_id"
  "payloadField demo_payload1 ''schoolId'' = alpha_id"
  "payloadField demo_payload1 ''orderId'' = order_id"
  "payloadField demo_payload1 ''paymentId'' = pay1_id"
  "toUpperCase (payloadField demo_payload1 ''result'') = ''APPROVED''"
  "map_of (webhookEvents demo14) event1_id = None"
  "map_of (gateway demo14) alpha_id =
     Some (demo_gateway alpha_id ''00000000000000000000000000000003'' ''t01'')"
  "trim (str_or_empty (JStr demo_signature1)) =
     hmacSha256 test_runtime
       (gw_webhookSecret (demo_gateway alpha_id ''00000000000000000000000000000003'' ''t01''))
       (stableStringify demo_payload1)"
  "map_of (orders demo14) order_id = Some demo_order"
  "o_schoolId demo_order = alpha_id"
  "map_of (payments demo14) pay1_id = Some (demo_payment pay1_id ''t10'')"
  "p_schoolId (demo_payment pay1_id ''t10'') = alpha_id"
  "p_orderId (demo_payment pay1_id ''t10'') = order_id"
  "map_of (schools demo14) alpha_id =
     Some ((demo_school alpha_id ''Escola Alpha'' ''alpha'' ''t01'')
            \<lparr> sc_status := SUSPENDED, sc_updatedAt := ''t14'' \<rparr>)"
  "o_buyerEmail demo_order = ''a@b.com''" "o_courseId demo_order = course_id"
  "event1_id \<noteq> []" "alpha_id \<noteq> []" "order_id \<noteq> []" "pay1_id \<noteq> []"
  by code_simp+

theorem receiveWebhook_ignores_school_status_witness:
  "map_option sc_status (map_of (schools demo14) alpha_id) = Some SUSPENDED \<and>
   map_option o_status
     (map_of (orders (snd (receiveWebhook test_runtime 21 ''t15'' (JStr ''DEMO'') demo_payload1
        (JStr demo_signature1) demo14))) order_id) = Some PAID \<and>
   map_option p_status
     (map_of (payments (snd (receiveWebhook test_runtime 21 ''t15'' (JStr ''DEMO'') demo_payload1
        (JStr demo_signature1) demo14))) pay1_id) = Some SUCCEEDED \<and>
   map_of (bySchoolBuyerCourse (snd (receiveWebhook test_runtime 21 ''t15'' (JStr ''DEMO'')
        demo_payload1 (JStr demo_signature1) demo14)))
     (enrollmentKey alpha_id ''a@b.com'' course_id) \<noteq> None \<and>
   createOrder test_runtime 22 1767225600000 ''t15'' alpha_id course_id ''c@d.com'' demo14 =
     (Inl ''SCHOOL_SUSPENDED'', demo14) \<and>
   startDemoCheckout test_runtime 23 24 ''t15'' alpha_id order_id ''APPROVED'' demo14 =
     (Inl ''SCHOOL_SUSPENDED'', demo14)"
proof -
  note f = demo14_facts
  note t = receiveWebhook_ignores_school_status[of "JStr ''DEMO''" demo_payload1 demo14
      "demo_gateway alpha_id ''00000000000000000000000000000003'' ''t01''" "JStr demo_signature1"
      test_runtime demo_order "demo_payment pay1_id ''t10''" 21 "''t15''" "schools demo14"
      alpha_id "(demo_school alpha_id ''Escola Alpha'' ''alpha'' ''t01'')
            \<lparr> sc_status := SUSPENDED, sc_updatedAt := ''t14'' \<rparr>" 22 1767225600000 course_id
      "''c@d.com''" 23 24 order_id "''APPROVED''"]
  have s: "map_option sc_status (map_of (schools demo14) alpha_id) = Some SUSPENDED"
    by (simp add: f)
  have susp: "sc_status ((demo_school alpha_id ''Escola Alpha'' ''alpha'' ''t01'')
            \<lparr> sc_status := SUSPENDED, sc_updatedAt := ''t14'' \<rparr>) = SUSPENDED"
    by simp
  have ne: "event1_id \<noteq> []" "alpha_id \<noteq> []" "order_id \<noteq> []" "pay1_id \<noteq> []"
    by (simp_all add: event1_id_def alpha_id_def order_id_def pay1_id_def)
  from t[unfolded f] ne susp
  have "map_option o_status
     (map_of (orders (snd (receiveWebhook test_runtime 21 ''t15'' (JStr ''DEMO'') demo_payload1
        (JStr demo_signature1) demo14))) order_id) = Some PAID"
    and "map_option p_status
     (map_of (payments (snd (receiveWebhook test_runtime 21 ''t15'' (JStr ''DEMO'') demo_payload1
        (JStr demo_signature1) demo14))) pay1_id) = Some SUCCEEDED"
    and "map_of (bySchoolBuyerCourse (snd (receiveWebhook test_runtime 21 ''t15'' (JStr ''DEMO'')
        demo_payload1 (JStr demo_signature1) demo14)))
     (enrollmentKey alpha_id ''a@b.com'' course_id) \<noteq> None"
    and "createOrder test_runtime 22 1767225600000 ''t15'' alpha_id course_id ''c@d.com'' demo14 =
     (Inl ''SCHOOL_SUSPENDED'', demo14)"
    and "startDemoCheckout test_runtime 23 24 ''t15'' alpha_id order_id ''APPROVED'' demo14 =
     (Inl ''SCHOOL_SUSPENDED'', demo14)"
    by simp_all
  with s show ?thesis by blast
qed

lemma webhookProvider_DEMO: "webhookProvider (JStr ''DEMO'') payload = ''DEMO''"
  by code_simp

lemma str_or_empty_JStr [simp]: "str_or_empty (JStr x) = x"
  by (simp add: str_or_empty_def)

lemma receiveWebhook_replay:
  assumes "webhookProvider provider payload = ''DEMO''"
    and "payloadField payload ''eventId'' \<noteq> []"
    and "map_of (webhookEvents s) (payloadField payload ''eventId'') = Some ev"
  shows "receiveWebhook rt renr now provider payload signature s = (Inr (we_resultSnapshot ev), s)"
  using assms by (simp add: receiveWebhook_def)

lemma receiveWebhook_success_cases:
  assumes "receiveWebhook rt renr now provider payload signature s = (Inr snap, s')"
  shows "webhookProvider provider payload = ''DEMO'' \<and> payloadField payload ''eventId'' \<noteq> [] \<and>
    ((\<exists>ev. map_of (webhookEvents s) (payloadField payload ''eventId'') = Some ev \<and>
        snap = we_resultSnapshot ev \<and> s' = s) \<or>
     (\<exists>order payment.
        (snap, s') = applyWebhook renr now ''DEMO'' (payloadField payload ''eventId'')
             (payloadField payload ''schoolId'') (payloadField payload ''orderId'')
             (payloadField payload ''paymentId'')
             (toUpperCase (payloadField payload ''result'')) payload signature order payment s))"
  using assms
  by (simp add: receiveWebhook_def Let_def split: option.splits if_splits prod.splits) metis+

text \<open>
  C1.  Provider DEMO and a payload whose \<open>eventId\<close> is that of a recorded event: in every
  reachable store the call returns the snapshot stored with the event and leaves the
  whole store as it is, whatever the rest of the payload and the signature are.  And a
  delivery that succeeded, made again with the same provider, payload and signature
  (at any later time, with any random draw) returns the same snapshot and changes
  nothing.
\<close>

theorem receiveWebhook_idempotent:
  "(reachable rt s \<and> field payload ''eventId'' = JStr k \<and> map_of (webhookEvents s) k = Some ev
      \<longrightarrow> receiveWebhook rt renr now (JStr ''DEMO'') payload signature s =
            (Inr (we_resultSnapshot ev), s)) \<and>
   (receiveWebhook rt renr now provider payload signature s = (Inr snap, s')
      \<longrightarrow> receiveWebhook rt renr' now' provider payload signature s' = (Inr snap, s'))"
proof (intro conjI impI)
  assume h: "reachable rt s \<and> field payload ''eventId'' = JStr k \<and>
    map_of (webhookEvents s) k = Some ev"
  then have "clean_id k"
    using reachable_inv[of rt s] inv_eventsD[of s k ev] by (simp add: store_inv_def)
  then have k: "payloadField payload ''eventId'' = k" "k \<noteq> []"
    using h by (simp_all add: payloadField_def clean_id_def)
  show "receiveWebhook rt renr now (JStr ''DEMO'') payload signature s =
      (Inr (we_resultSnapshot ev), s)"
    by (rule receiveWebhook_replay) (use h k webhookProvider_DEMO in simp_all)
next
  assume a: "receiveWebhook rt renr now provider payload signature s = (Inr snap, s')"
  note c = receiveWebhook_success_cases[OF a]
  from c have p: "webhookProvider provider payload = ''DEMO''"
    and e: "payloadField payload ''eventId'' \<noteq> []" by simp_all
  from c consider
    ev where "map_of (webhookEvents s) (payloadField payload ''eventId'') = Some ev"
      "snap = we_resultSnapshot ev" "s' = s"
    | order payment where
      "(snap, s') = applyWebhook renr now ''DEMO'' (payloadField payload ''eventId'')
             (payloadField payload ''schoolId'') (payloadField payload ''orderId'')
             (payloadField payload ''paymentId'')
             (toUpperCase (payloadField payload ''result'')) payload signature order payment s"
    by blast
  then show "receiveWebhook rt renr' now' provider payload signature s' = (Inr snap, s')"
  proof cases
    case 1
    then show ?thesis using receiveWebhook_replay[OF p e, of s ev] by simp
  next
    case 2
    let ?a = "applyWebhook renr now ''DEMO'' (payloadField payload ''eventId'')
             (payloadField payload ''schoolId'') (payloadField payload ''orderId'')
             (payloadField payload ''paymentId'')
             (toUpperCase (payloadField payload ''result'')) payload signature order payment s"
    from 2 have s': "s' = snd ?a" and sn: "snap = fst ?a" by (metis fst_conv snd_conv)+
    have "map_of (webhookEvents s') (payloadField payload ''eventId'') =
        Some \<lparr> we_id = payloadField payload ''eventId'', we_provider = ''DEMO'',
               we_schoolId = payloadField payload ''schoolId'',
               we_orderId = payloadField payload ''orderId'',
               we_paymentId = payloadField payload ''paymentId'', we_receivedAt = now,
               we_payload = stableStringify payload, we_signature = str_or_empty signature,
               we_resultSnapshot = snap \<rparr>"
      unfolding s' sn by (rule applyWebhook_snapshot)
    from receiveWebhook_replay[OF p e this] show ?thesis by simp
  qed
qed

lemma demo12_delivery:
  "receiveWebhook test_runtime 19 ''t12'' (JStr ''DEMO'') demo_payload1 (JStr demo_signature1) demo11
     = (Inr (demo_snapshot event1_id pay1_id PAID), demo12)"
  by code_simp

lemma demo12_event:
  "map_of (webhookEvents demo12) event1_id =
     Some (demo_event event1_id pay1_id ''t12'' demo_payload1 demo_signature1 PAID)"
  "field (JObj [(''eventId'', JStr event1_id), (''result'', JStr ''DECLINED'')]) ''eventId'' =
     JStr event1_id"
  "we_resultSnapshot (demo_event event1_id pay1_id ''t12'' demo_payload1 demo_signature1 PAID) =
     demo_snapshot event1_id pay1_id PAID"
  by code_simp+

theorem receiveWebhook_idempotent_witness:
  "receiveWebhook test_runtime 30 ''t20'' (JStr ''DEMO'')
     (JObj [(''eventId'', JStr event1_id), (''result'', JStr ''DECLINED'')]) (JStr ''bogus'') demo12
     = (Inr (demo_snapshot event1_id pay1_id PAID), demo12) \<and>
   receiveWebhook test_runtime 19 ''t12'' (JStr ''DEMO'') demo_payload1 (JStr demo_signature1) demo11
     = (Inr (demo_snapshot event1_id pay1_id PAID), demo12) \<and>
   receiveWebhook test_runtime 31 ''t21'' (JStr ''DEMO'') demo_payload1 (JStr demo_signature1) demo12
     = (Inr (demo_snapshot event1_id pay1_id PAID), demo12)"
proof -
  note a = receiveWebhook_idempotent[of test_runtime demo12
      "JObj [(''eventId'', JStr event1_id), (''result'', JStr ''DECLINED'')]" event1_id
      "demo_event event1_id pay1_id ''t12'' demo_payload1 demo_signature1 PAID" 30 "''t20''"
      "JStr ''bogus''"]
  note b = receiveWebhook_idempotent[of test_runtime demo11 demo_payload1 event1_id
      "demo_event event1_id pay1_id ''t12'' demo_payload1 demo_signature1 PAID" 19 "''t12''"
      "JStr demo_signature1" "JStr ''DEMO''" "demo_snapshot event1_id pay1_id PAID" demo12
      31 "''t21''"]
  from a demo_reachable(12) demo12_event
  have 1: "receiveWebhook test_runtime 30 ''t20'' (JStr ''DEMO'')
     (JObj [(''eventId'', JStr event1_id), (''result'', JStr ''DECLINED'')]) (JStr ''bogus'') demo12
     = (Inr (demo_snapshot event1_id pay1_id PAID), demo12)"
    by simp
  from b demo12_delivery
  have 2: "receiveWebhook test_runtime 31 ''t21'' (JStr ''DEMO'') demo_payload1
      (JStr demo_signature1) demo12 = (Inr (demo_snapshot event1_id pay1_id PAID), demo12)"
    by blast
  from 1 2 demo12_delivery show ?thesis by blast
qed

lemma receiveWebhook_signature:
  assumes "webhookProvider provider payload = ''DEMO''"
    and "payloadField payload ''eventId'' \<noteq> []"
    and "map_of (webhookEvents s) (payloadField payload ''eventId'') = None"
    and "payloadField payload ''schoolId'' \<noteq> []"
    and "payloadField payload ''orderId'' \<noteq> []"
    and "payloadField payload ''paymentId'' \<noteq> []"
    and "toUpperCase (payloadField payload ''result'') = ''APPROVED'' \<or>
         toUpperCase (payloadField payload ''result'') = ''DECLINED''"
    and "map_of (gateway s) (payloadField payload ''schoolId'') = Some g"
  shows "fst (receiveWebhook rt renr now provider payload signature s) =
           Inl ''WEBHOOK_SIGNATURE_INVALID'' \<longleftrightarrow>
         trim (str_or_empty signature) \<noteq>
           hmacSha256 rt (gw_webhookSecret g) (stableStringify payload)"
    and "trim (str_or_empty signature) \<noteq>
           hmacSha256 rt (gw_webhookSecret g) (stableStringify payload) \<Longrightarrow>
         snd (receiveWebhook rt renr now provider payload signature s) = s"
  using assms
  by (auto simp: receiveWebhook_def Let_def split: option.splits prod.splits)

lemma receiveWebhook_signature_ok:
  assumes "\<And>g. map_of (gateway s) (payloadField payload ''schoolId'') = Some g \<Longrightarrow>
      trim (str_or_empty signature) =
        hmacSha256 rt (gw_webhookSecret g) (stableStringify payload)"
  shows "fst (receiveWebhook rt renr now provider payload signature s) \<noteq>
           Inl ''WEBHOOK_SIGNATURE_INVALID''"
  using assms
  by (auto simp: receiveWebhook_def Let_def split: option.splits prod.splits)

lemma startDemoCheckout_result:
  assumes "startDemoCheckout rt rpay rwhk now schoolId orderId outcome s = (Inr ck, s1)"
  shows "\<exists>g sc. map_of (gateway s) schoolId = Some g \<and> map_of (schools s) schoolId = Some sc \<and>
     wh_signature ck = hmacSha256 rt (gw_webhookSecret g) (stableStringify (wh_payload ck)) \<and>
     wh_payload ck =
       JObj [(''provider'', JStr ''DEMO''), (''eventId'', JStr (generateId ''whk'' rwhk)),
             (''schoolId'', JStr schoolId), (''orderId'', JStr orderId),
             (''paymentId'', JStr (generateId ''pay'' rpay)),
             (''result'', JStr (toUpperCase (trim outcome))), (''ts'', JStr now)]"
  using assms
  by (auto simp: startDemoCheckout_def assertSchoolActive_def Let_def
      split: option.splits if_splits sum.splits)

text \<open>
  C3.  For a first delivery (event not recorded) that passes the provider, eventId, field
  and result checks and names a school with a gateway configuration, \<^verbatim>\<open>receiveWebhook\<close>
  throws \<^verbatim>\<open>WEBHOOK_SIGNATURE_INVALID\<close>, leaving the store as it is, exactly when the
  signature supplied, as a string trimmed of surrounding white space, differs from the
  HMAC-SHA256 of the canonical serialization of the payload delivered under that
  school's current secret.  Hence a payload delivered with the signature that
  \<^verbatim>\<open>startDemoCheckout\<close> returned fails so whenever its own HMAC differs from that
  signature; and the pair that \<^verbatim>\<open>startDemoCheckout\<close> returned, delivered unmodified to
  a store where the school's secret is the one of the checkout, is not refused for its
  signature.
\<close>

theorem receiveWebhook_signature_check:
  "(webhookProvider provider payload = ''DEMO'' \<and>
    payloadField payload ''eventId'' \<noteq> [] \<and>
    map_of (webhookEvents s) (payloadField payload ''eventId'') = None \<and>
    payloadField payload ''schoolId'' \<noteq> [] \<and>
    payloadField payload ''orderId'' \<noteq> [] \<and>
    payloadField payload ''paymentId'' \<noteq> [] \<and>
    (toUpperCase (payloadField payload ''result'') = ''APPROVED'' \<or>
     toUpperCase (payloadField payload ''result'') = ''DECLINED'') \<and>
    map_of (gateway s) (payloadField payload ''schoolId'') = Some g
    \<longrightarrow>
    (fst (receiveWebhook rt renr now provider payload signature s) =
        Inl ''WEBHOOK_SIGNATURE_INVALID'') =
      (trim (str_or_empty signature) \<noteq>
        hmacSha256 rt (gw_webhookSecret g) (stableStringify payload)) \<and>
    (trim (str_or_empty signature) \<noteq>
        hmacSha256 rt (gw_webhookSecret g) (stableStringify payload) \<longrightarrow>
     snd (receiveWebhook rt renr now provider payload signature s) = s) \<and>
    (startDemoCheckout rt rpay rwhk now0 schoolId0 orderId0 outcome s0 = (Inr ck, s1) \<and>
     hmacSha256 rt (gw_webhookSecret g) (stableStringify payload) \<noteq> wh_signature ck \<longrightarrow>
     receiveWebhook rt renr now provider payload (JStr (wh_signature ck)) s =
       (Inl ''WEBHOOK_SIGNATURE_INVALID'', s))) \<and>
   (reachable rt s0 \<and>
    startDemoCheckout rt rpay rwhk now0 schoolId0 orderId0 outcome s0 = (Inr ck, s1) \<and>
    map_option gw_webhookSecret (map_of (gateway s) schoolId0) =
      map_option gw_webhookSecret (map_of (gateway s0) schoolId0)
    \<longrightarrow>
    fst (receiveWebhook rt renr now (JStr ''DEMO'') (wh_payload ck) (JStr (wh_signature ck)) s) \<noteq>
      Inl ''WEBHOOK_SIGNATURE_INVALID'')"
proof (intro conjI impI)
  assume h: "webhookProvider provider payload = ''DEMO'' \<and>
    payloadField payload ''eventId'' \<noteq> [] \<and>
    map_of (webhookEvents s) (payloadField payload ''eventId'') = None \<and>
    payloadField payload ''schoolId'' \<noteq> [] \<and>
    payloadField payload ''orderId'' \<noteq> [] \<and>
    payloadField payload ''paymentId'' \<noteq> [] \<and>
    (toUpperCase (payloadField payload ''result'') = ''APPROVED'' \<or>
     toUpperCase (payloadField payload ''result'') = ''DECLINED'') \<and>
    map_of (gateway s) (payloadField payload ''schoolId'') = Some g"
  note sig = receiveWebhook_signature[where provider=provider and payload=payload and s=s and g=g
      and rt=rt and renr=renr and now=now]
  show "(fst (receiveWebhook rt renr now provider payload signature s) =
        Inl ''WEBHOOK_SIGNATURE_INVALID'') =
      (trim (str_or_empty signature) \<noteq>
        hmacSha256 rt (gw_webhookSecret g) (stableStringify payload))"
    using h by (intro sig(1)) simp_all
  show "snd (receiveWebhook rt renr now provider payload signature s) = s"
    if "trim (str_or_empty signature) \<noteq>
        hmacSha256 rt (gw_webhookSecret g) (stableStringify payload)"
    using h that by (intro sig(2)) simp_all
  show "receiveWebhook rt renr now provider payload (JStr (wh_signature ck)) s =
       (Inl ''WEBHOOK_SIGNATURE_INVALID'', s)"
    if t: "startDemoCheckout rt rpay rwhk now0 schoolId0 orderId0 outcome s0 = (Inr ck, s1) \<and>
     hmacSha256 rt (gw_webhookSecret g) (stableStringify payload) \<noteq> wh_signature ck"
  proof -
    from t have "startDemoCheckout rt rpay rwhk now0 schoolId0 orderId0 outcome s0 = (Inr ck, s1)"
      by simp
    from startDemoCheckout_result[OF this]
    obtain g0 sc where "map_of (gateway s0) schoolId0 = Some g0"
      "map_of (schools s0) schoolId0 = Some sc"
      "wh_signature ck =
        hmacSha256 rt (gw_webhookSecret g0) (stableStringify (wh_payload ck))"
      "wh_payload ck =
       JObj [(''provider'', JStr ''DEMO''), (''eventId'', JStr (generateId ''whk'' rwhk)),
             (''schoolId'', JStr schoolId0), (''orderId'', JStr orderId0),
             (''paymentId'', JStr (generateId ''pay'' rpay)),
             (''result'', JStr (toUpperCase (trim outcome))), (''ts'', JStr now0)]"
      by (elim exE conjE)
    then have "trim (wh_signature ck) = wh_signature ck" by (simp add: hmacSha256_trim)
    then have ne: "trim (str_or_empty (JStr (wh_signature ck))) \<noteq>
        hmacSha256 rt (gw_webhookSecret g) (stableStringify payload)"
      using t by auto
    have 1: "fst (receiveWebhook rt renr now provider payload (JStr (wh_signature ck)) s) =
        Inl ''WEBHOOK_SIGNATURE_INVALID''"
      using h ne sig(1)[where signature="JStr (wh_signature ck)"] by simp
    have 2: "snd (receiveWebhook rt renr now provider payload (JStr (wh_signature ck)) s) = s"
      using h ne by (intro sig(2)) simp_all
    from 1 2 show ?thesis by (metis prod.collapse)
  qed
next
  assume h: "reachable rt s0 \<and>
    startDemoCheckout rt rpay rwhk now0 schoolId0 orderId0 outcome s0 = (Inr ck, s1) \<and>
    map_option gw_webhookSecret (map_of (gateway s) schoolId0) =
      map_option gw_webhookSecret (map_of (gateway s0) schoolId0)"
  from h have "startDemoCheckout rt rpay rwhk now0 schoolId0 orderId0 outcome s0 = (Inr ck, s1)"
    by simp
  from startDemoCheckout_result[OF this]
  obtain g0 sc where g0: "map_of (gateway s0) schoolId0 = Some g0"
    and sc: "map_of (schools s0) schoolId0 = Some sc"
    and sg: "wh_signature ck =
        hmacSha256 rt (gw_webhookSecret g0) (stableStringify (wh_payload ck))"
    and pl: "wh_payload ck =
       JObj [(''provider'', JStr ''DEMO''), (''eventId'', JStr (generateId ''whk'' rwhk)),
             (''schoolId'', JStr schoolId0), (''orderId'', JStr orderId0),
             (''paymentId'', JStr (generateId ''pay'' rpay)),
             (''result'', JStr (toUpperCase (trim outcome))), (''ts'', JStr now0)]"
    by (elim exE conjE)
  have "clean_id schoolId0"
    using h sc reachable_inv[of rt s0] inv_schoolsD[of s0 schoolId0 sc] by (simp add: store_inv_def)
  then have f: "payloadField (wh_payload ck) ''schoolId'' = schoolId0"
    unfolding pl by (simp add: payloadField_def clean_id_def)
  show "fst (receiveWebhook rt renr now (JStr ''DEMO'') (wh_payload ck) (JStr (wh_signature ck)) s) \<noteq>
      Inl ''WEBHOOK_SIGNATURE_INVALID''"
  proof (rule receiveWebhook_signature_ok)
    fix g assume "map_of (gateway s) (payloadField (wh_payload ck) ''schoolId'') = Some g"
    then have "gw_webhookSecret g = gw_webhookSecret g0" using h g0 f by simp
    then show "trim (str_or_empty (JStr (wh_signature ck))) =
        hmacSha256 rt (gw_webhookSecret g) (stableStringify (wh_payload ck))"
      using sg by (simp add: hmacSha256_trim)
  qed
qed

text \<open>
  The claim as stated fails: a signature that is the HMAC followed by a space is not
  equal to the HMAC, and the delivery is accepted.
\<close>

theorem receiveWebhook_signature_counterexample:
  "map_of (webhookEvents demo11) event1_id = None \<and>
   map_option gw_webhookSecret (map_of (gateway demo11) alpha_id) =
     Some ''00000000000000000000000000000003'' \<and>
   demo_signature1 =
     hmacSha256 test_runtime ''00000000000000000000000000000003'' (stableStringify demo_payload1) \<and>
   demo_signature1 @ '' '' \<noteq>
     hmacSha256 test_runtime ''00000000000000000000000000000003'' (stableStringify demo_payload1) \<and>
   fst (receiveWebhook test_runtime 19 ''t12'' (JStr ''DEMO'') demo_payload1
         (JStr (demo_signature1 @ '' '')) demo11) = Inr (demo_snapshot event1_id pay1_id PAID)"
  by code_simp

lemma demo10_checkout:
  "startDemoCheckout test_runtime 15 16 ''t10'' alpha_id order_id ''approved'' demo9 =
     (Inr \<lparr> checkoutUrl =
              ''https://checkout.demo.local/checkout?orderId=ord_000000000000000e&result=APPROVED'',
            wh_payload = demo_payload1, wh_signature = demo_signature1 \<rparr>, demo10)"
  by code_simp

lemma demo11_facts:
  "webhookProvider (JStr ''DEMO'') demo_payload2 = ''DEMO''"
  "payloadField demo_payload2 ''eventId'' = event2_id"
  "payloadField demo_payload2 ''schoolId'' = alpha_id"
  "payloadField demo_payload2 ''orderId'' = order_id"
  "payloadField demo_payload2 ''paymentId'' = pay2_id"
  "toUpperCase (payloadField demo_payload2 ''result'') = ''DECLINED''"
  "map_of (webhookEvents demo11) event2_id = None"
  "map_of (gateway demo11) alpha_id =
     Some (demo_gateway alpha_id ''00000000000000000000000000000003'' ''t01'')"
  "hmacSha256 test_runtime
     (gw_webhookSecret (demo_gateway alpha_id ''00000000000000000000000000000003'' ''t01''))
     (stableStringify demo_payload2) \<noteq> demo_signature1"
  "map_option gw_webhookSecret (map_of (gateway demo11) alpha_id) =
     map_option gw_webhookSecret (map_of (gateway demo9) alpha_id)"
  by code_simp+

theorem receiveWebhook_signature_check_witness:
  "receiveWebhook test_runtime 19 ''t12'' (JStr ''DEMO'') demo_payload2 (JStr demo_signature1) demo11 =
     (Inl ''WEBHOOK_SIGNATURE_INVALID'', demo11) \<and>
   fst (receiveWebhook test_runtime 19 ''t12'' (JStr ''DEMO'') demo_payload1 (JStr demo_signature1)
          demo11) \<noteq> Inl ''WEBHOOK_SIGNATURE_INVALID''"
proof -
  let ?ck = "\<lparr> checkoutUrl =
              ''https://checkout.demo.local/checkout?orderId=ord_000000000000000e&result=APPROVED'',
            wh_payload = demo_payload1, wh_signature = demo_signature1 \<rparr>"
  let ?g = "demo_gateway alpha_id ''00000000000000000000000000000003'' ''t01''"
  note t = receiveWebhook_signature_check[where provider="JStr ''DEMO''" and payload=demo_payload2
      and s=demo11 and g="?g" and rt=test_runtime and renr=19 and now="''t12''"
      and signature="JStr demo_signature1" and rpay=15 and rwhk=16 and ?now0.0="''t10''"
      and ?schoolId0.0=alpha_id and ?orderId0.0=order_id and outcome="''approved''" and ?s0.0=demo9
      and ck="?ck" and ?s1.0=demo10]
  have ne: "event2_id \<noteq> []" "alpha_id \<noteq> []" "order_id \<noteq> []" "pay2_id \<noteq> []"
    by (simp_all add: event2_id_def alpha_id_def order_id_def pay2_id_def)
  have sel: "wh_signature ?ck = demo_signature1" "wh_payload ?ck = demo_payload1" by simp_all
  have pre: "webhookProvider (JStr ''DEMO'') demo_payload2 = ''DEMO'' \<and>
    payloadField demo_payload2 ''eventId'' \<noteq> [] \<and>
    map_of (webhookEvents demo11) (payloadField demo_payload2 ''eventId'') = None \<and>
    payloadField demo_payload2 ''schoolId'' \<noteq> [] \<and>
    payloadField demo_payload2 ''orderId'' \<noteq> [] \<and>
    payloadField demo_payload2 ''paymentId'' \<noteq> [] \<and>
    (toUpperCase (payloadField demo_payload2 ''result'') = ''APPROVED'' \<or>
     toUpperCase (payloadField demo_payload2 ''result'') = ''DECLINED'') \<and>
    map_of (gateway demo11) (payloadField demo_payload2 ''schoolId'') = Some ?g"
    using ne by (simp add: demo11_facts)
  have tam: "startDemoCheckout test_runtime 15 16 ''t10'' alpha_id order_id ''approved'' demo9 =
      (Inr ?ck, demo10) \<and>
     hmacSha256 test_runtime (gw_webhookSecret ?g) (stableStringify demo_payload2) \<noteq>
       wh_signature ?ck"
    using demo10_checkout demo11_facts(9) by simp
  from t pre tam have 1: "receiveWebhook test_runtime 19 ''t12'' (JStr ''DEMO'') demo_payload2
      (JStr (wh_signature ?ck)) demo11 = (Inl ''WEBHOOK_SIGNATURE_INVALID'', demo11)"
    by blast
  have un: "reachable test_runtime demo9 \<and>
    startDemoCheckout test_runtime 15 16 ''t10'' alpha_id order_id ''approved'' demo9 =
      (Inr ?ck, demo10) \<and>
    map_option gw_webhookSecret (map_of (gateway demo11) alpha_id) =
      map_option gw_webhookSecret (map_of (gateway demo9) alpha_id)"
    using demo_reachable(9) demo10_checkout demo11_facts(10) by simp
  from t un have 2: "fst (receiveWebhook test_runtime 19 ''t12'' (JStr ''DEMO'') (wh_payload ?ck)
      (JStr (wh_signature ?ck)) demo11) \<noteq> Inl ''WEBHOOK_SIGNATURE_INVALID''"
    by blast
  from 1 2 show ?thesis unfolding sel by blast
qed

text \<open>
  C2.  The order of the scenario is PENDING when its second checkout is started; the
  first webhook moves it to PAID; the second, a first delivery of its own event, moves
  it on to FAILED, while the access granted by the first stays.
\<close>

theorem order_status_moves_twice:
  "map_option o_status (map_of (orders demo10) order_id) = Some PENDING \<and>
   startDemoCheckout test_runtime 17 18 ''t11'' alpha_id order_id ''DECLINED'' demo10 =
     (Inr \<lparr> checkoutUrl =
              ''https://checkout.demo.local/checkout?orderId=ord_000000000000000e&result=DECLINED'',
            wh_payload = demo_payload2, wh_signature = demo_signature2 \<rparr>, demo11) \<and>
   receiveWebhook test_runtime 19 ''t12'' (JStr ''DEMO'') demo_payload1 (JStr demo_signature1) demo11
     = (Inr (demo_snapshot event1_id pay1_id PAID), demo12) \<and>
   map_option o_status (map_of (orders demo12) order_id) = Some PAID \<and>
   receiveWebhook test_runtime 20 ''t13'' (JStr ''DEMO'') demo_payload2 (JStr demo_signature2) demo12
     = (Inr (demo_snapshot event2_id pay2_id FAILED), demo13) \<and>
   map_option o_status (map_of (orders demo13) order_id) = Some FAILED \<and>
   canAccessCourse alpha_id ''a@b.com'' course_id demo13"
  by code_simp

end
